theory Spec2Isabelle
  imports
    Main
    "HOL-Library.Sublist"
    "HOL-Library.Char_ord"
    "HOL-Library.List_Lexorder"
    "HOL-Library.Product_Lexorder"
begin

section \<open>Data model (src/lib/db/schema.ts)\<close>

text \<open>
  The relational store is a record of four row lists, one per table of \<^verbatim>\<open>schema.ts\<close>.
  A uuid is a string and a \<^verbatim>\<open>timestamp\<close> column holds the time value (milliseconds since
  the epoch) of the instant it denotes. The fields of a row are named after the drizzle
  column they embed: \<^verbatim>\<open>todos.user_id\<close> is \<open>todos_user_id\<close>.
\<close>

type_synonym uuid = string
type_synonym timestamp = int

record user =
  users_id :: uuid
  users_email :: string
  users_name :: "string option"
  users_created_at :: timestamp

record todo =
  todos_id :: uuid
  todos_user_id :: uuid
  todos_title :: string
  todos_description :: "string option"
  todos_is_completed :: bool
  todos_priority :: int
  todos_due_date :: "timestamp option"
  todos_created_at :: timestamp
  todos_updated_at :: timestamp

record category =
  categories_id :: uuid
  categories_user_id :: uuid
  categories_name :: string
  categories_color :: string
  categories_created_at :: timestamp

record todoCategory =
  tc_todo_id :: uuid
  tc_category_id :: uuid
  tc_created_at :: timestamp

record db =
  users :: "user list"
  todos :: "todo list"
  categories :: "category list"
  todoCategories :: "todoCategory list"

text \<open>
  The constraints the schema declares: the primary keys (the composite one of the junction
  table included) and the four foreign keys.
\<close>

definition primary_keys :: "db \<Rightarrow> bool" where
  "primary_keys d \<longleftrightarrow>
     distinct (map users_id (users d)) \<and>
     distinct (map todos_id (todos d)) \<and>
     distinct (map categories_id (categories d)) \<and>
     distinct (map (\<lambda>r. (tc_todo_id r, tc_category_id r)) (todoCategories d))"

definition foreign_keys :: "db \<Rightarrow> bool" where
  "foreign_keys d \<longleftrightarrow>
     list_all (\<lambda>t. todos_user_id t \<in> set (map users_id (users d))) (todos d) \<and>
     list_all (\<lambda>c. categories_user_id c \<in> set (map users_id (users d))) (categories d) \<and>
     list_all (\<lambda>r. tc_todo_id r \<in> set (map todos_id (todos d)) \<and>
                    tc_category_id r \<in> set (map categories_id (categories d)))
       (todoCategories d)"

section \<open>Thrown values\<close>

text \<open>
  What a \<^verbatim>\<open>throw\<close> can carry in this code: a \<^verbatim>\<open>ZodError\<close> with its issues, an
  \<^verbatim>\<open>Error\<close> with its message, or a value that is neither. An issue has the path of the
  offending field and a message, which is either a text the schema gives or the text zod
  makes up for the issue code.
\<close>

datatype pathSegment = Key string | Index nat

datatype zodCode = Invalid_type | Invalid_string | Invalid_enum_value | Custom

datatype zodMessage = Message string | DefaultMessage zodCode

record zodIssue =
  issue_path :: "pathSegment list"
  issue_message :: zodMessage

datatype thrown = ZodError "zodIssue list" | Error string | NonError

text \<open>
  Every function of the query layer is one \<^verbatim>\<open>try { ... } catch (error) { console.error(...);
  throw new Error(msg) }\<close>: whatever the body throws, the caller sees \<^verbatim>\<open>Error(msg)\<close>.
\<close>

definition rethrow :: "string \<Rightarrow> thrown + 'a \<Rightarrow> thrown + 'a" where
  "rethrow msg r = (case r of Inl e \<Rightarrow> Inl (Error msg) | Inr v \<Rightarrow> Inr v)"

text \<open>\<^verbatim>\<open>result[0] || null\<close> on the rows a statement returns.\<close>

fun first_or_null :: "'a list \<Rightarrow> 'a option" where
  "first_or_null [] = None"
| "first_or_null (r # rs) = Some r"

section \<open>Query layer (src/lib/db/queries.ts)\<close>

text \<open>
  Each function takes the store and, when it writes, returns the store it leaves behind,
  also when it throws. The store answers every statement: what can fail in a function is
  a \<^verbatim>\<open>throw\<close> of the code itself or a statement that violates a key of the schema.
\<close>

subsection \<open>Todo queries\<close>

datatype sortField = Due_date | Priority | Created_at | Title

datatype sortDirection = Asc | Desc

record filters =
  f_isCompleted :: "bool option"
  f_priority :: "int option"
  f_categoryId :: "string option"
  f_search :: "string option"

text \<open>A string used as a condition: \<^verbatim>\<open>undefined\<close> and the empty string are falsy.\<close>

fun truthy :: "string option \<Rightarrow> bool" where
  "truthy None = False"
| "truthy (Some s) = (s \<noteq> [])"

text \<open>
  \<^verbatim>\<open>ORDER BY\<close> on one column. The store puts NULL after every value in ascending order
  and before every value in descending order, so a nullable column is sorted on the pair
  (is null, value).
\<close>

definition nulls_last :: "timestamp option \<Rightarrow> bool \<times> timestamp" where
  "nulls_last v = (case v of None \<Rightarrow> (True, 0) | Some t \<Rightarrow> (False, t))"

definition orderBy :: "sortField \<Rightarrow> sortDirection \<Rightarrow> todo list \<Rightarrow> todo list" where
  "orderBy sortField sortDirection rows =
     (let ascending =
        (case sortField of
           Due_date \<Rightarrow> sort_key (\<lambda>t. nulls_last (todos_due_date t)) rows
         | Priority \<Rightarrow> sort_key todos_priority rows
         | Created_at \<Rightarrow> sort_key todos_created_at rows
         | Title \<Rightarrow> sort_key todos_title rows)
      in if sortDirection = Asc then ascending else rev ascending)"

text \<open>
  The conjunction of conditions \<^verbatim>\<open>getUserTodos\<close> builds. \<open>like\<close> is the store's
  \<^verbatim>\<open>LIKE\<close> operator (value first, pattern second); on a NULL description it yields NULL,
  which \<^verbatim>\<open>OR\<close> and \<^verbatim>\<open>WHERE\<close> treat as not true.
\<close>

definition conditions ::
  "(string \<Rightarrow> string \<Rightarrow> bool) \<Rightarrow> uuid \<Rightarrow> filters option \<Rightarrow> todo \<Rightarrow> bool" where
  "conditions like userId fs t \<longleftrightarrow>
     todos_user_id t = userId \<and>
     (case fs of None \<Rightarrow> True | Some f \<Rightarrow>
        (case f_isCompleted f of None \<Rightarrow> True | Some b \<Rightarrow> todos_is_completed t = b) \<and>
        (case f_priority f of None \<Rightarrow> True | Some p \<Rightarrow> todos_priority t = p) \<and>
        (if truthy (f_search f)
         then like (todos_title t) (''%'' @ the (f_search f) @ ''%'') \<or>
              (case todos_description t of None \<Rightarrow> False
               | Some desc \<Rightarrow> like desc (''%'' @ the (f_search f) @ ''%''))
         else True))"

definition getUserTodos ::
  "(string \<Rightarrow> string \<Rightarrow> bool) \<Rightarrow> uuid \<Rightarrow> filters option \<Rightarrow>
   (sortField \<times> sortDirection) option \<Rightarrow> db \<Rightarrow> thrown + todo list" where
  "getUserTodos like userId fs sorting d =
     rethrow ''Failed to fetch todos''
       (let sortField = (case sorting of None \<Rightarrow> Created_at | Some (fld, dir) \<Rightarrow> fld);
            sortDirection = (case sorting of None \<Rightarrow> Desc | Some (fld, dir) \<Rightarrow> dir);
            result = orderBy sortField sortDirection
                       (filter (conditions like userId fs) (todos d))
        in if (case fs of None \<Rightarrow> False | Some f \<Rightarrow> truthy (f_categoryId f))
           then (let todosInCategory =
                       filter (\<lambda>tc. tc_category_id tc = the (f_categoryId (the fs)))
                         (todoCategories d);
                     todoIds = set (map tc_todo_id todosInCategory)
                 in Inr (filter (\<lambda>t. todos_id t \<in> todoIds) result))
           else Inr result)"

definition getTodoById :: "uuid \<Rightarrow> uuid \<Rightarrow> db \<Rightarrow> thrown + todo option" where
  "getTodoById todoId userId d =
     rethrow ''Failed to fetch todo''
       (Inr (first_or_null
          (filter (\<lambda>t. todos_id t = todoId \<and> todos_user_id t = userId) (todos d))))"

text \<open>
  The inner join of the junction table with the categories, restricted to one todo: for
  each association row of the todo, the categories with its category id.
\<close>

definition joinCategories :: "uuid \<Rightarrow> db \<Rightarrow> category list" where
  "joinCategories todoId d =
     concat (map (\<lambda>tc. filter (\<lambda>c. categories_id c = tc_category_id tc) (categories d))
       (filter (\<lambda>tc. tc_todo_id tc = todoId) (todoCategories d)))"

definition getTodoWithCategories ::
  "uuid \<Rightarrow> uuid \<Rightarrow> db \<Rightarrow> thrown + (todo \<times> category list) option" where
  "getTodoWithCategories todoId userId d =
     rethrow ''Failed to fetch todo with categories''
       (case getTodoById todoId userId d of
          Inl e \<Rightarrow> Inl e
        | Inr None \<Rightarrow> Inr None
        | Inr (Some t) \<Rightarrow> Inr (Some (t, joinCategories todoId d)))"

text \<open>
  What a caller hands over for the \<^verbatim>\<open>due_date\<close> column. The column is declared for
  \<^verbatim>\<open>Date\<close> objects, and drizzle turns the value into what the driver takes with
  \<^verbatim>\<open>value.toISOString()\<close> while it builds the statement: on a string that call is a
  \<^verbatim>\<open>TypeError\<close>, thrown before anything reaches the store. NULL is passed through.
\<close>

datatype dateValue = DateObject timestamp | DateString string

fun mapToDriverValue :: "dateValue option \<Rightarrow> thrown + timestamp option" where
  "mapToDriverValue None = Inr None"
| "mapToDriverValue (Some (DateObject t)) = Inr (Some t)"
| "mapToDriverValue (Some (DateString s)) = Inl (Error ''value.toISOString is not a function'')"

text \<open>
  \<^verbatim>\<open>NewTodo\<close> as the callers fill it: the columns with a default (\<^verbatim>\<open>id\<close>, both
  timestamps) are left to the store, which draws the id \<open>gen\<close> and reads the clock \<open>now\<close>
  to complete the row. The insert fails on a user id that is not in \<^verbatim>\<open>users\<close> and on an
  id already taken.
\<close>

record newTodo =
  nt_user_id :: uuid
  nt_title :: string
  nt_description :: "string option"
  nt_priority :: "int option"
  nt_due_date :: "dateValue option"
  nt_is_completed :: "bool option"

definition withDefaults :: "newTodo \<Rightarrow> timestamp option \<Rightarrow> uuid \<Rightarrow> timestamp \<Rightarrow> todo" where
  "withDefaults data due gen now =
     \<lparr> todos_id = gen,
       todos_user_id = nt_user_id data,
       todos_title = nt_title data,
       todos_description = nt_description data,
       todos_is_completed = (case nt_is_completed data of None \<Rightarrow> False | Some b \<Rightarrow> b),
       todos_priority = (case nt_priority data of None \<Rightarrow> 2 | Some p \<Rightarrow> p),
       todos_due_date = due,
       todos_created_at = now,
       todos_updated_at = now \<rparr>"

definition createTodo ::
  "newTodo \<Rightarrow> uuid \<Rightarrow> timestamp \<Rightarrow> db \<Rightarrow> (thrown + todo) \<times> db" where
  "createTodo data gen now d =
     (case mapToDriverValue (nt_due_date data) of
        Inl e \<Rightarrow> (rethrow ''Failed to create todo'' (Inl e), d)
      | Inr due \<Rightarrow>
          if nt_user_id data \<notin> set (map users_id (users d))
          then (rethrow ''Failed to create todo''
                  (Inl (Error ''violates foreign key constraint'')), d)
          else if gen \<in> set (map todos_id (todos d))
          then (rethrow ''Failed to create todo''
                  (Inl (Error ''duplicate key value violates unique constraint'')), d)
          else (rethrow ''Failed to create todo'' (Inr (withDefaults data due gen now)),
                d\<lparr>todos := todos d @ [withDefaults data due gen now]\<rparr>))"

text \<open>
  The partial field set of \<^verbatim>\<open>updateTodo\<close>: an absent key is \<open>None\<close>; the two nullable
  columns can be set to NULL, which is \<open>Some None\<close>. The due date, when the key is there,
  goes through the same mapping as in an insert.
\<close>

record todoUpdate =
  up_title :: "string option"
  up_description :: "string option option"
  up_is_completed :: "bool option"
  up_priority :: "int option"
  up_due_date :: "dateValue option option"

definition noUpdate :: todoUpdate where
  "noUpdate = \<lparr> up_title = None, up_description = None, up_is_completed = None,
                up_priority = None, up_due_date = None \<rparr>"

fun dueDateToSet :: "dateValue option option \<Rightarrow> thrown + timestamp option option" where
  "dueDateToSet None = Inr None"
| "dueDateToSet (Some v) =
     (case mapToDriverValue v of Inl e \<Rightarrow> Inl e | Inr due \<Rightarrow> Inr (Some due))"

definition setTodo ::
  "todoUpdate \<Rightarrow> timestamp option option \<Rightarrow> timestamp \<Rightarrow> todo \<Rightarrow> todo" where
  "setTodo data due now t =
     t\<lparr> todos_title := (case up_title data of None \<Rightarrow> todos_title t | Some v \<Rightarrow> v),
        todos_description :=
          (case up_description data of None \<Rightarrow> todos_description t | Some v \<Rightarrow> v),
        todos_is_completed :=
          (case up_is_completed data of None \<Rightarrow> todos_is_completed t | Some v \<Rightarrow> v),
        todos_priority := (case up_priority data of None \<Rightarrow> todos_priority t | Some v \<Rightarrow> v),
        todos_due_date := (case due of None \<Rightarrow> todos_due_date t | Some v \<Rightarrow> v),
        todos_updated_at := now \<rparr>"

definition updateTodo ::
  "uuid \<Rightarrow> uuid \<Rightarrow> todoUpdate \<Rightarrow> timestamp \<Rightarrow> db \<Rightarrow> (thrown + todo option) \<times> db" where
  "updateTodo todoId userId data now d =
     (case dueDateToSet (up_due_date data) of
        Inl e \<Rightarrow> (rethrow ''Failed to update todo'' (Inl e), d)
      | Inr due \<Rightarrow>
          (let hit = (\<lambda>t. todos_id t = todoId \<and> todos_user_id t = userId);
               result = map (setTodo data due now) (filter hit (todos d))
           in (rethrow ''Failed to update todo'' (Inr (first_or_null result)),
               d\<lparr>todos := map (\<lambda>t. if hit t then setTodo data due now t else t) (todos d)\<rparr>)))"

text \<open>
  A delete returns the rows it removed; the junction rows that reference a removed row go
  with it (\<^verbatim>\<open>onDelete: "cascade"\<close>).
\<close>

definition deleteTodo :: "uuid \<Rightarrow> uuid \<Rightarrow> db \<Rightarrow> (thrown + bool) \<times> db" where
  "deleteTodo todoId userId d =
     (let hit = (\<lambda>t. todos_id t = todoId \<and> todos_user_id t = userId);
          result = filter hit (todos d)
      in (rethrow ''Failed to delete todo'' (Inr (length result > 0)),
          d\<lparr>todos := filter (\<lambda>t. \<not> hit t) (todos d),
            todoCategories :=
              filter (\<lambda>tc. tc_todo_id tc \<notin> set (map todos_id result)) (todoCategories d)\<rparr>))"

subsection \<open>Category queries\<close>

definition getUserCategories :: "uuid \<Rightarrow> db \<Rightarrow> thrown + category list" where
  "getUserCategories userId d =
     rethrow ''Failed to fetch categories''
       (Inr (sort_key categories_name
          (filter (\<lambda>c. categories_user_id c = userId) (categories d))))"

definition getCategoryById :: "uuid \<Rightarrow> uuid \<Rightarrow> db \<Rightarrow> thrown + category option" where
  "getCategoryById categoryId userId d =
     rethrow ''Failed to fetch category''
       (Inr (first_or_null
          (filter (\<lambda>c. categories_id c = categoryId \<and> categories_user_id c = userId)
             (categories d))))"

text \<open>
  The partial field set of \<^verbatim>\<open>updateCategory\<close>. Unlike \<^verbatim>\<open>updateTodo\<close>, which always
  sets \<^verbatim>\<open>updated_at\<close>, this update can come with no column at all, and drizzle refuses
  to build an update that sets nothing: \<^verbatim>\<open>set({})\<close> throws.
\<close>

record categoryUpdate =
  cu_name :: "string option"
  cu_color :: "string option"

definition setCategory :: "categoryUpdate \<Rightarrow> category \<Rightarrow> category" where
  "setCategory data c =
     c\<lparr> categories_name := (case cu_name data of None \<Rightarrow> categories_name c | Some v \<Rightarrow> v),
        categories_color := (case cu_color data of None \<Rightarrow> categories_color c | Some v \<Rightarrow> v) \<rparr>"

definition updateCategory ::
  "uuid \<Rightarrow> uuid \<Rightarrow> categoryUpdate \<Rightarrow> db \<Rightarrow> (thrown + category option) \<times> db" where
  "updateCategory categoryId userId data d =
     (if cu_name data = None \<and> cu_color data = None
      then (rethrow ''Failed to update category'' (Inl (Error ''No values to set'')), d)
      else
        (let hit = (\<lambda>c. categories_id c = categoryId \<and> categories_user_id c = userId);
             result = map (setCategory data) (filter hit (categories d))
         in (rethrow ''Failed to update category'' (Inr (first_or_null result)),
             d\<lparr>categories :=
                 map (\<lambda>c. if hit c then setCategory data c else c) (categories d)\<rparr>)))"

definition deleteCategory :: "uuid \<Rightarrow> uuid \<Rightarrow> db \<Rightarrow> (thrown + bool) \<times> db" where
  "deleteCategory categoryId userId d =
     (let hit = (\<lambda>c. categories_id c = categoryId \<and> categories_user_id c = userId);
          result = filter hit (categories d)
      in (rethrow ''Failed to delete category'' (Inr (length result > 0)),
          d\<lparr>categories := filter (\<lambda>c. \<not> hit c) (categories d),
            todoCategories :=
              filter (\<lambda>tc. tc_category_id tc \<notin> set (map categories_id result))
                (todoCategories d)\<rparr>))"

subsection \<open>Todo-category association queries\<close>

text \<open>
  \<^verbatim>\<open>insert(todoCategories).values(values).onConflictDoNothing()\<close>: the rows go in one by
  one, and a row whose (todo id, category id) is already there is skipped. The statement
  fails as a whole, inserting nothing, when a value references a todo or a category that
  does not exist.
\<close>

fun onConflictDoNothing ::
  "todoCategory list \<Rightarrow> (uuid \<times> uuid) list \<Rightarrow> timestamp \<Rightarrow> todoCategory list" where
  "onConflictDoNothing rows [] now = rows"
| "onConflictDoNothing rows ((t, c) # vs) now =
     onConflictDoNothing
       (if list_ex (\<lambda>r. tc_todo_id r = t \<and> tc_category_id r = c) rows then rows
        else rows @ [\<lparr> tc_todo_id = t, tc_category_id = c, tc_created_at = now \<rparr>])
       vs now"

definition insertTodoCategories ::
  "(uuid \<times> uuid) list \<Rightarrow> timestamp \<Rightarrow> db \<Rightarrow> (thrown + unit) \<times> db" where
  "insertTodoCategories vs now d =
     (if list_all (\<lambda>(t, c). t \<in> set (map todos_id (todos d)) \<and>
                            c \<in> set (map categories_id (categories d))) vs
      then (Inr (), d\<lparr>todoCategories := onConflictDoNothing (todoCategories d) vs now\<rparr>)
      else (Inl (Error ''violates foreign key constraint''), d))"

definition addCategoriesToTodo ::
  "uuid \<Rightarrow> uuid list \<Rightarrow> uuid \<Rightarrow> timestamp \<Rightarrow> db \<Rightarrow> (thrown + unit) \<times> db" where
  "addCategoriesToTodo todoId categoryIds userId now d =
     (let (r, d') =
        (case getTodoById todoId userId d of
           Inl e \<Rightarrow> (Inl e, d)
         | Inr None \<Rightarrow> (Inl (Error ''Todo not found or access denied''), d)
         | Inr (Some t) \<Rightarrow>
             (case getUserCategories userId d of
                Inl e \<Rightarrow> (Inl e, d)
              | Inr userCategs \<Rightarrow>
                  (let validCategoryIds = set (map categories_id userCategs);
                       invalidCategories =
                         filter (\<lambda>i. i \<notin> validCategoryIds) categoryIds
                   in if length invalidCategories > 0
                      then (Inl (Error ''One or more categories not found or access denied''), d)
                      else insertTodoCategories
                             (map (\<lambda>categoryId. (todoId, categoryId)) categoryIds) now d)))
      in (rethrow ''Failed to add categories to todo'' r, d'))"

definition replaceTodoCategories ::
  "uuid \<Rightarrow> uuid list \<Rightarrow> uuid \<Rightarrow> timestamp \<Rightarrow> db \<Rightarrow> (thrown + unit) \<times> db" where
  "replaceTodoCategories todoId categoryIds userId now d =
     (let (r, d') =
        (case getTodoById todoId userId d of
           Inl e \<Rightarrow> (Inl e, d)
         | Inr None \<Rightarrow> (Inl (Error ''Todo not found or access denied''), d)
         | Inr (Some t) \<Rightarrow>
             (let d1 = d\<lparr>todoCategories :=
                          filter (\<lambda>tc. tc_todo_id tc \<noteq> todoId) (todoCategories d)\<rparr>
              in if length categoryIds > 0
                 then addCategoriesToTodo todoId categoryIds userId now d1
                 else (Inr (), d1)))
      in (rethrow ''Failed to replace todo categories'' r, d'))"

section \<open>Validation layer (src/lib/validations/todo.ts)\<close>

text \<open>
  A request body after \<^verbatim>\<open>request.json()\<close>. No schema of this code accepts a number, so
  the value of a JSON number is not kept. An object is the list of its keys with their
  values, each key once.
\<close>

datatype json =
  JNull | JBool bool | JNumber | JString string | JArray "json list"
  | JObject "(string \<times> json) list"

text \<open>
  Two checks of zod are on formats that the code takes from the library: \<open>datetime\<close>
  gives the time value of a string that \<^verbatim>\<open>z.string().datetime()\<close> accepts (and that
  \<^verbatim>\<open>new Date\<close> then reads), \<open>None\<close> on any other string; \<open>isUuid\<close> is the test of
  \<^verbatim>\<open>z.string().uuid()\<close>.
\<close>

record library =
  datetime :: "string \<Rightarrow> timestamp option"
  isUuid :: "string \<Rightarrow> bool"

text \<open>
  A schema reads the value found under a key (\<open>None\<close> when the key is absent, which is
  \<^verbatim>\<open>undefined\<close>) and gives the issues, or the parsed value.
\<close>

type_synonym 'a schema = "pathSegment list \<Rightarrow> json option \<Rightarrow> zodIssue list + 'a"

definition issue :: "pathSegment list \<Rightarrow> zodMessage \<Rightarrow> zodIssue" where
  "issue path msg = \<lparr> issue_path = path, issue_message = msg \<rparr>"

definition zString :: "(string \<Rightarrow> zodMessage list) \<Rightarrow> string schema" where
  "zString checks path v =
     (case v of
        Some (JString s) \<Rightarrow> (if checks s = [] then Inr s else Inl (map (issue path) (checks s)))
      | _ \<Rightarrow> Inl [issue path (DefaultMessage Invalid_type)])"

definition zBoolean :: "bool schema" where
  "zBoolean path v =
     (case v of Some (JBool b) \<Rightarrow> Inr b | _ \<Rightarrow> Inl [issue path (DefaultMessage Invalid_type)])"

definition zEnum :: "string list \<Rightarrow> string schema" where
  "zEnum options path v =
     (case v of
        Some (JString s) \<Rightarrow>
          (if s \<in> set options then Inr s
           else Inl [issue path (DefaultMessage Invalid_enum_value)])
      | _ \<Rightarrow> Inl [issue path (DefaultMessage Invalid_type)])"

definition transform :: "'a schema \<Rightarrow> ('a \<Rightarrow> 'b) \<Rightarrow> 'b schema" where
  "transform s f path v = (case s path v of Inl issues \<Rightarrow> Inl issues | Inr x \<Rightarrow> Inr (f x))"

definition optional :: "'a schema \<Rightarrow> 'a option schema" where
  "optional s path v =
     (case v of None \<Rightarrow> Inr None
      | Some j \<Rightarrow> (case s path v of Inl issues \<Rightarrow> Inl issues | Inr x \<Rightarrow> Inr (Some x)))"

text \<open>A value that can be \<^verbatim>\<open>undefined\<close>, \<^verbatim>\<open>null\<close> or present.\<close>

datatype 'a nullish = Undefined | Null | Defined 'a

definition optionalNullable :: "'a schema \<Rightarrow> 'a nullish schema" where
  "optionalNullable s path v =
     (case v of None \<Rightarrow> Inr Undefined
      | Some JNull \<Rightarrow> Inr Null
      | Some j \<Rightarrow> (case s path v of Inl issues \<Rightarrow> Inl issues | Inr x \<Rightarrow> Inr (Defined x)))"

fun issuesOf :: "zodIssue list + 'a \<Rightarrow> zodIssue list" where
  "issuesOf (Inl issues) = issues"
| "issuesOf (Inr v) = []"

text \<open>The elements of an array are checked one by one, each under its index.\<close>

fun zElements :: "'a schema \<Rightarrow> pathSegment list \<Rightarrow> nat \<Rightarrow> json list \<Rightarrow> zodIssue list + 'a list" where
  "zElements s path i [] = Inr []"
| "zElements s path i (j # js) =
     (case (s (path @ [Index i]) (Some j), zElements s path (Suc i) js) of
        (Inr x, Inr xs) \<Rightarrow> Inr (x # xs)
      | (r, rs) \<Rightarrow> Inl (issuesOf r @ issuesOf rs))"

definition zArray :: "'a schema \<Rightarrow> 'a list schema" where
  "zArray s path v =
     (case v of
        Some (JArray js) \<Rightarrow> zElements s path 0 js
      | _ \<Rightarrow> Inl [issue path (DefaultMessage Invalid_type)])"

text \<open>\<^verbatim>\<open>parseInt\<close> on a string of decimal digits.\<close>

definition parseInt :: "string \<Rightarrow> int" where
  "parseInt s = foldl (\<lambda>n c. 10 * n + (int (of_char c) - 48)) 0 s"

definition priorityEnum :: "int schema" where
  "priorityEnum = transform (zEnum [''1'', ''2'', ''3'', ''4'']) parseInt"

definition titleChecks :: "string \<Rightarrow> zodMessage list" where
  "titleChecks s =
     (if length s < 1 then [Message ''Title is required''] else []) @
     (if length s > 200 then [Message ''Title must be 200 characters or less''] else [])"

definition datetimeChecks :: "library \<Rightarrow> string \<Rightarrow> zodMessage list" where
  "datetimeChecks lib s = (if datetime lib s = None then [DefaultMessage Invalid_string] else [])"

definition uuidChecks :: "library \<Rightarrow> string \<Rightarrow> zodMessage list" where
  "uuidChecks lib s = (if isUuid lib s then [] else [DefaultMessage Invalid_string])"

record createTodoInput =
  ci_title :: string
  ci_description :: "string option"
  ci_priority :: "int option"
  ci_dueDate :: "string option"
  ci_categoryIds :: "string list option"

definition createTodoSchema :: "library \<Rightarrow> json \<Rightarrow> zodIssue list + createTodoInput" where
  "createTodoSchema lib body =
     (case body of
        JObject entries \<Rightarrow>
          (let title = zString titleChecks [Key ''title''] (map_of entries ''title'');
               description =
                 optional (zString (\<lambda>s. [])) [Key ''description''] (map_of entries ''description'');
               priority = optional priorityEnum [Key ''priority''] (map_of entries ''priority'');
               dueDate = optional (zString (datetimeChecks lib)) [Key ''dueDate'']
                           (map_of entries ''dueDate'');
               categoryIds = optional (zArray (zString (uuidChecks lib))) [Key ''categoryIds'']
                               (map_of entries ''categoryIds'')
           in case (title, description, priority, dueDate, categoryIds) of
                (Inr t, Inr de, Inr p, Inr du, Inr c) \<Rightarrow>
                  Inr \<lparr> ci_title = t, ci_description = de, ci_priority = p, ci_dueDate = du,
                        ci_categoryIds = c \<rparr>
              | _ \<Rightarrow> Inl (issuesOf title @ issuesOf description @ issuesOf priority @
                          issuesOf dueDate @ issuesOf categoryIds))
      | _ \<Rightarrow> Inl [issue [] (DefaultMessage Invalid_type)])"

record updateTodoInput =
  ui_title :: "string option"
  ui_description :: "string option"
  ui_priority :: "int option"
  ui_dueDate :: "string nullish"
  ui_isCompleted :: "bool option"
  ui_categoryIds :: "string list option"

text \<open>\<^verbatim>\<open>Object.keys(data).length\<close> on the parsed object: the keys that are there.\<close>

definition objectKeys :: "updateTodoInput \<Rightarrow> string list" where
  "objectKeys data =
     (if ui_title data \<noteq> None then [''title''] else []) @
     (if ui_description data \<noteq> None then [''description''] else []) @
     (if ui_priority data \<noteq> None then [''priority''] else []) @
     (if ui_dueDate data \<noteq> Undefined then [''dueDate''] else []) @
     (if ui_isCompleted data \<noteq> None then [''isCompleted''] else []) @
     (if ui_categoryIds data \<noteq> None then [''categoryIds''] else [])"

text \<open>
  The refinement is run on the parsed object. When a field has an issue the field is
  present, so the refinement has nothing to add to the issues of the fields.
\<close>

definition updateTodoSchema :: "library \<Rightarrow> json \<Rightarrow> zodIssue list + updateTodoInput" where
  "updateTodoSchema lib body =
     (case body of
        JObject entries \<Rightarrow>
          (let title = optional (zString titleChecks) [Key ''title''] (map_of entries ''title'');
               description =
                 optional (zString (\<lambda>s. [])) [Key ''description''] (map_of entries ''description'');
               priority = optional priorityEnum [Key ''priority''] (map_of entries ''priority'');
               dueDate = optionalNullable (zString (datetimeChecks lib)) [Key ''dueDate'']
                           (map_of entries ''dueDate'');
               isCompleted = optional zBoolean [Key ''isCompleted''] (map_of entries ''isCompleted'');
               categoryIds = optional (zArray (zString (uuidChecks lib))) [Key ''categoryIds'']
                               (map_of entries ''categoryIds'')
           in case (title, description, priority, dueDate, isCompleted, categoryIds) of
                (Inr t, Inr de, Inr p, Inr du, Inr i, Inr c) \<Rightarrow>
                  (let data = \<lparr> ui_title = t, ui_description = de, ui_priority = p,
                                ui_dueDate = du, ui_isCompleted = i, ui_categoryIds = c \<rparr>
                   in if length (objectKeys data) > 0 then Inr data
                      else Inl [issue []
                             (Message ''At least one field must be provided for update'')])
              | _ \<Rightarrow> Inl (issuesOf title @ issuesOf description @ issuesOf priority @
                          issuesOf dueDate @ issuesOf isCompleted @ issuesOf categoryIds))
      | _ \<Rightarrow> Inl [issue [] (DefaultMessage Invalid_type)])"

text \<open>The keys a todo update recognises.\<close>

definition recognizedFields :: "string list" where
  "recognizedFields =
     [''title'', ''description'', ''priority'', ''dueDate'', ''isCompleted'', ''categoryIds'']"

section \<open>Responses and the error handler (lib/utils/api-response.ts)\<close>

record validationEntry =
  field :: string
  message :: zodMessage

record apiError =
  error :: string
  code :: nat
  validation :: "validationEntry list option"

datatype responseBody =
  ErrorBody apiError
  | TodoBody todo "category list option"
  | SuccessBody bool

record response =
  status :: nat
  body :: responseBody

definition successResponse :: "responseBody \<Rightarrow> nat \<Rightarrow> response" where
  "successResponse data st = \<lparr> status = st, body = data \<rparr>"

definition errorResponse :: "string \<Rightarrow> nat \<Rightarrow> validationEntry list option \<Rightarrow> response" where
  "errorResponse msg st val =
     \<lparr> status = st, body = ErrorBody \<lparr> error = msg, code = st, validation = val \<rparr> \<rparr>"

text \<open>\<^verbatim>\<open>err.path.join('.')\<close>: an index is written in decimal.\<close>

fun showNat :: "nat \<Rightarrow> string" where
  "showNat n =
     (if n < 10 then [char_of (48 + n)] else showNat (n div 10) @ [char_of (48 + n mod 10)])"

fun showSegment :: "pathSegment \<Rightarrow> string" where
  "showSegment (Key k) = k"
| "showSegment (Index n) = showNat n"

fun join :: "string list \<Rightarrow> string \<Rightarrow> string" where
  "join [] sep = []"
| "join [s] sep = s"
| "join (s # t # ss) sep = s @ sep @ join (t # ss) sep"

definition handleValidationError :: "zodIssue list \<Rightarrow> response" where
  "handleValidationError errors =
     errorResponse ''Validation failed'' 400
       (Some (map (\<lambda>err. \<lparr> field = join (map showSegment (issue_path err)) ''.'',
                             message = issue_message err \<rparr>) errors))"

text \<open>\<^verbatim>\<open>String.prototype.includes\<close>.\<close>

fun str_includes :: "string \<Rightarrow> string \<Rightarrow> bool" where
  "str_includes [] sub = (sub = [])"
| "str_includes (c # s) sub = (prefix sub (c # s) \<or> str_includes s sub)"

definition handleError :: "thrown \<Rightarrow> response" where
  "handleError err =
     (case err of
        ZodError issues \<Rightarrow> handleValidationError issues
      | Error msg \<Rightarrow>
          if str_includes msg ''not found'' then errorResponse ''Resource not found'' 404 None
          else if str_includes msg ''unauthorized'' \<or> str_includes msg ''No user found''
          then errorResponse ''Unauthorized access'' 401 None
          else if str_includes msg ''forbidden'' then errorResponse ''Access forbidden'' 403 None
          else errorResponse msg 500 None
      | NonError \<Rightarrow> errorResponse ''An unexpected error occurred'' 500 None)"

text \<open>
  The messages of the catch blocks of the query layer, one per function of
  \<^verbatim>\<open>queries.ts\<close>, in the order of the file.
\<close>

definition queryLayerMessages :: "string list" where
  "queryLayerMessages =
     [''Failed to fetch todos'', ''Failed to fetch todo'',
      ''Failed to fetch todo with categories'', ''Failed to create todo'',
      ''Failed to update todo'', ''Failed to toggle todo completion'',
      ''Failed to delete todo'', ''Failed to bulk update todos'',
      ''Failed to fetch todo statistics'', ''Failed to fetch categories'',
      ''Failed to fetch category'', ''Failed to create category'',
      ''Failed to update category'', ''Failed to delete category'',
      ''Failed to fetch categories with counts'', ''Failed to add categories to todo'',
      ''Failed to remove categories from todo'', ''Failed to replace todo categories'',
      ''Failed to fetch todo categories'']"

section \<open>Request handlers (app/api/todos/route.ts, app/api/todos/[id]/route.ts)\<close>

text \<open>
  What a handler reads from outside the store: the session, the body of the request, the
  clock and the uuid generator. \<open>env_now\<close> is the handler's own \<^verbatim>\<open>new Date()\<close>; \<open>env_later\<close> is
  the clock as the query layer and the store read it afterwards; \<open>env_randomUuid\<close> is the id
  the store draws for a new row.
\<close>

record environment =
  env_now :: timestamp
  env_later :: timestamp
  env_randomUuid :: uuid

text \<open>\<^verbatim>\<open>getUserId\<close> (lib/utils/auth.ts): the session's user, or a throw.\<close>

definition getUserId :: "uuid option \<Rightarrow> thrown + uuid" where
  "getUserId session =
     (case session of None \<Rightarrow> Inl (Error ''No user found in session'') | Some u \<Rightarrow> Inr u)"

text \<open>
  \<^verbatim>\<open>request.json()\<close>: a body that is not JSON throws a \<^verbatim>\<open>SyntaxError\<close> with the
  message of the parser.
\<close>

datatype requestBody = Malformed string | Parsed json

definition requestJson :: "requestBody \<Rightarrow> thrown + json" where
  "requestJson request = (case request of Malformed msg \<Rightarrow> Inl (Error msg) | Parsed j \<Rightarrow> Inr j)"

text \<open>\<^verbatim>\<open>new Date(s) < now\<close>; a string that is no date compares false.\<close>

definition before :: "library \<Rightarrow> string \<Rightarrow> timestamp \<Rightarrow> bool" where
  "before lib s t = (case datetime lib s of None \<Rightarrow> False | Some dueDate \<Rightarrow> dueDate < t)"

text \<open>
  The record \<^verbatim>\<open>POST\<close> passes to \<^verbatim>\<open>createTodo\<close>. The due date goes in as the
  string the schema validated (\<^verbatim>\<open>due_date: validatedData.dueDate || null\<close>).
\<close>

definition createData :: "uuid \<Rightarrow> createTodoInput \<Rightarrow> newTodo" where
  "createData userId validatedData =
     \<lparr> nt_user_id = userId,
       nt_title = ci_title validatedData,
       nt_description =
         (if truthy (ci_description validatedData) then ci_description validatedData
          else None),
       nt_priority =
         Some (case ci_priority validatedData of None \<Rightarrow> 2
               | Some p \<Rightarrow> if p = 0 then 2 else p),
       nt_due_date =
         (if truthy (ci_dueDate validatedData)
          then Some (DateString (the (ci_dueDate validatedData))) else None),
       nt_is_completed = Some False \<rparr>"

definition POST ::
  "library \<Rightarrow> environment \<Rightarrow> uuid option \<Rightarrow> requestBody \<Rightarrow> db \<Rightarrow> response \<times> db" where
  "POST lib env session request d =
     (case getUserId session of
        Inl e \<Rightarrow> (handleError e, d)
      | Inr userId \<Rightarrow>
     (case requestJson request of
        Inl e \<Rightarrow> (handleError e, d)
      | Inr json \<Rightarrow>
     (case createTodoSchema lib json of
        Inl issues \<Rightarrow> (handleError (ZodError issues), d)
      | Inr validatedData \<Rightarrow>
          if truthy (ci_dueDate validatedData) \<and>
             before lib (the (ci_dueDate validatedData)) (env_now env)
          then (errorResponse ''Due date cannot be in the past'' 400 None, d)
          else
     (case createTodo (createData userId validatedData)
             (env_randomUuid env) (env_later env) d of
        (Inl e, d1) \<Rightarrow> (handleError e, d1)
      | (Inr newTodo, d1) \<Rightarrow>
     (case (case ci_categoryIds validatedData of
              None \<Rightarrow> (Inr (), d1)
            | Some categoryIds \<Rightarrow>
                if length categoryIds > 0
                then replaceTodoCategories (todos_id newTodo) categoryIds userId
                       (env_later env) d1
                else (Inr (), d1)) of
        (Inl e, d2) \<Rightarrow> (handleError e, d2)
      | (Inr u, d2) \<Rightarrow>
     (case getTodoWithCategories (todos_id newTodo) userId d2 of
        Inl e \<Rightarrow> (handleError e, d2)
      | Inr None \<Rightarrow> (successResponse (TodoBody newTodo None) 201, d2)
      | Inr (Some (t, cs)) \<Rightarrow> (successResponse (TodoBody t (Some cs)) 201, d2)))))))"

text \<open>
  The update data \<^verbatim>\<open>PATCH\<close> prepares from the validated body; here too the due date
  is the validated string (\<^verbatim>\<open>updateData.due_date = validatedData.dueDate\<close>).
\<close>

definition updateData :: "updateTodoInput \<Rightarrow> todoUpdate" where
  "updateData validatedData =
     \<lparr> up_title = ui_title validatedData,
       up_description = map_option Some (ui_description validatedData),
       up_is_completed = ui_isCompleted validatedData,
       up_priority = ui_priority validatedData,
       up_due_date =
         (case ui_dueDate validatedData of
            Undefined \<Rightarrow> None | Null \<Rightarrow> Some None | Defined s \<Rightarrow> Some (Some (DateString s))) \<rparr>"

definition PATCH ::
  "library \<Rightarrow> environment \<Rightarrow> uuid option \<Rightarrow> uuid \<Rightarrow> requestBody \<Rightarrow> db \<Rightarrow> response \<times> db"
  where
  "PATCH lib env session id' request d =
     (case getUserId session of
        Inl e \<Rightarrow> (handleError e, d)
      | Inr userId \<Rightarrow>
     (case getTodoById id' userId d of
        Inl e \<Rightarrow> (handleError e, d)
      | Inr None \<Rightarrow> (errorResponse ''Todo not found'' 404 None, d)
      | Inr (Some existingTodo) \<Rightarrow>
     (case requestJson request of
        Inl e \<Rightarrow> (handleError e, d)
      | Inr json \<Rightarrow>
     (case updateTodoSchema lib json of
        Inl issues \<Rightarrow> (handleError (ZodError issues), d)
      | Inr validatedData \<Rightarrow>
          if (case ui_dueDate validatedData of
                Defined s \<Rightarrow> \<not> todos_is_completed existingTodo \<and> before lib s (env_now env)
              | _ \<Rightarrow> False)
          then (errorResponse ''Due date cannot be in the past'' 400 None, d)
          else
     (case updateTodo id' userId (updateData validatedData) (env_later env) d of
        (Inl e, d1) \<Rightarrow> (handleError e, d1)
      | (Inr None, d1) \<Rightarrow> (errorResponse ''Failed to update todo'' 500 None, d1)
      | (Inr (Some updatedTodo), d1) \<Rightarrow>
     (case (case ui_categoryIds validatedData of
              None \<Rightarrow> (Inr (), d1)
            | Some categoryIds \<Rightarrow>
                replaceTodoCategories id' categoryIds userId (env_later env) d1) of
        (Inl e, d2) \<Rightarrow> (handleError e, d2)
      | (Inr u, d2) \<Rightarrow>
     (case getTodoWithCategories id' userId d2 of
        Inl e \<Rightarrow> (handleError e, d2)
      | Inr None \<Rightarrow> (successResponse (TodoBody updatedTodo None) 200, d2)
      | Inr (Some (t, cs)) \<Rightarrow> (successResponse (TodoBody t (Some cs)) 200, d2))))))))"

section \<open>A small store to run the definitions on\<close>

definition alice :: uuid where "alice = ''u-alice''"
definition bob :: uuid where "bob = ''u-bob''"

definition milk :: todo where
  "milk = \<lparr> todos_id = ''t-milk'', todos_user_id = alice, todos_title = ''Buy milk'',
             todos_description = None, todos_is_completed = False, todos_priority = 2,
             todos_due_date = Some 5000, todos_created_at = 100, todos_updated_at = 100 \<rparr>"

definition taxes :: todo where
  "taxes = \<lparr> todos_id = ''t-taxes'', todos_user_id = bob, todos_title = ''File taxes'',
              todos_description = Some ''before April'', todos_is_completed = True,
              todos_priority = 4, todos_due_date = None, todos_created_at = 200,
              todos_updated_at = 300 \<rparr>"

definition home :: category where
  "home = \<lparr> categories_id = ''c-home'', categories_user_id = alice, categories_name = ''Home'',
             categories_color = ''#3B82F6'', categories_created_at = 50 \<rparr>"

definition work :: category where
  "work = \<lparr> categories_id = ''c-work'', categories_user_id = bob, categories_name = ''Work'',
             categories_color = ''#fff'', categories_created_at = 60 \<rparr>"

definition example_db :: db where
  "example_db =
     \<lparr> users = [\<lparr> users_id = alice, users_email = ''alice@example.org'', users_name = None,
                    users_created_at = 1 \<rparr>,
                 \<lparr> users_id = bob, users_email = ''bob@example.org'', users_name = Some ''Bob'',
                    users_created_at = 2 \<rparr>],
        todos = [milk, taxes],
        categories = [home, work],
        todoCategories =
          [\<lparr> tc_todo_id = ''t-milk'', tc_category_id = ''c-home'', tc_created_at = 110 \<rparr>,
           \<lparr> tc_todo_id = ''t-taxes'', tc_category_id = ''c-work'', tc_created_at = 210 \<rparr>] \<rparr>"

definition example_lib :: library where
  "example_lib =
     \<lparr> datetime = (\<lambda>s. if s = ''1970-01-01T00:00:01Z'' then Some 1000
                        else if s = ''1970-01-01T00:00:09Z'' then Some 9000 else None),
       isUuid = (\<lambda>s. length s = 36) \<rparr>"

definition example_env :: environment where
  "example_env = \<lparr> env_now = 2000, env_later = 2001, env_randomUuid = ''t-new'' \<rparr>"

section \<open>Basic facts\<close>

lemmas example_defs = example_db_def milk_def taxes_def home_def work_def alice_def bob_def

lemma rethrow_Inr [simp]: "rethrow msg (Inr v) = Inr v"
  by (simp add: rethrow_def)

lemma rethrow_Inl [simp]: "rethrow msg (Inl e) = Inl (Error msg)"
  by (simp add: rethrow_def)

lemma first_or_null_eq_None [simp]: "first_or_null xs = None \<longleftrightarrow> xs = []"
  by (cases xs) simp_all

lemma first_or_null_mem: "first_or_null xs = Some x \<Longrightarrow> x \<in> set xs"
  by (cases xs) auto

lemma key_owner_no_hit:
  assumes "distinct (map key rows)" and "r \<in> set rows" and "owner r \<noteq> a"
  shows "filter (\<lambda>x. key x = key r \<and> owner x = a) rows = []"
proof -
  have "inj_on key (set rows)" using assms(1) by (simp add: distinct_map)
  then have "\<And>x. x \<in> set rows \<Longrightarrow> key x = key r \<Longrightarrow> x = r"
    using assms(2) by (auto dest: inj_onD)
  then show ?thesis using assms(3) by (auto simp: filter_empty_conv)
qed

lemma absent_key_no_hit:
  assumes "k \<notin> set (map key rows)"
  shows "filter (\<lambda>x. key x = k \<and> owner x = a) rows = []"
  using assms by (auto simp: filter_empty_conv)

lemma no_hit_map_id:
  assumes "filter P rows = []"
  shows "map (\<lambda>x. if P x then f x else x) rows = rows"
  using assms by (induction rows) (auto split: if_splits)

lemma no_hit_filter_id:
  assumes "filter P rows = []"
  shows "filter (\<lambda>x. \<not> P x) rows = rows"
  using assms by (induction rows) (auto split: if_splits)

lemma todo_ops_no_hit:
  assumes "filter (\<lambda>t. todos_id t = i \<and> todos_user_id t = a) (todos d) = []"
  shows "getTodoById i a d = Inr None"
    and "updateTodo i a data now d =
           (if \<exists>s. up_due_date data = Some (Some (DateString s))
            then (Inl (Error ''Failed to update todo''), d) else (Inr None, d))"
    and "deleteTodo i a d = (Inr False, d)"
proof -
  show "getTodoById i a d = Inr None"
    unfolding getTodoById_def assms by simp
  show "deleteTodo i a d = (Inr False, d)"
    unfolding deleteTodo_def Let_def assms no_hit_filter_id [OF assms] by simp
  show "updateTodo i a data now d =
      (if \<exists>s. up_due_date data = Some (Some (DateString s))
       then (Inl (Error ''Failed to update todo''), d) else (Inr None, d))"
  proof (cases "dueDateToSet (up_due_date data)")
    case (Inl e)
    then have "\<exists>s. up_due_date data = Some (Some (DateString s))"
      by (cases "up_due_date data" rule: dueDateToSet.cases)
        (auto split: sum.splits elim: mapToDriverValue.elims)
    then show ?thesis
      using Inl by (simp add: updateTodo_def)
  next
    case (Inr due)
    then have "\<not> (\<exists>s. up_due_date data = Some (Some (DateString s)))"
      by auto
    then show ?thesis
      unfolding updateTodo_def Inr Let_def assms no_hit_map_id [OF assms] by simp
  qed
qed

lemma category_ops_no_hit:
  assumes "filter (\<lambda>c. categories_id c = i \<and> categories_user_id c = a) (categories d) = []"
  shows "getCategoryById i a d = Inr None"
    and "updateCategory i a cdata d =
           (if cu_name cdata = None \<and> cu_color cdata = None
            then (Inl (Error ''Failed to update category''), d) else (Inr None, d))"
    and "deleteCategory i a d = (Inr False, d)"
  unfolding getCategoryById_def updateCategory_def deleteCategory_def Let_def assms
    no_hit_map_id [OF assms] no_hit_filter_id [OF assms]
  by simp_all

text \<open>Rows of other users are outside every statement scoped to a user.\<close>

lemma getTodoById_owner:
  "getTodoById i a d = Inr (Some t) \<Longrightarrow> t \<in> set (todos d) \<and> todos_id t = i \<and> todos_user_id t = a"
  by (auto simp: getTodoById_def dest!: first_or_null_mem)

lemma getCategoryById_owner:
  "getCategoryById i a d = Inr (Some c) \<Longrightarrow>
     c \<in> set (categories d) \<and> categories_id c = i \<and> categories_user_id c = a"
  by (auto simp: getCategoryById_def dest!: first_or_null_mem)

lemma updateTodo_owner:
  "fst (updateTodo i a data now d) = Inr (Some t) \<Longrightarrow> todos_user_id t = a"
  by (auto simp: updateTodo_def Let_def setTodo_def split: sum.splits dest!: first_or_null_mem)

lemma updateCategory_owner:
  "fst (updateCategory i a data d) = Inr (Some c) \<Longrightarrow> categories_user_id c = a"
  by (auto simp: updateCategory_def Let_def setCategory_def split: if_splits
      dest!: first_or_null_mem)

lemma filter_map_scoped:
  assumes "\<And>x. P x \<Longrightarrow> \<not> Q x \<and> \<not> Q (f x)"
  shows "filter Q (map (\<lambda>x. if P x then f x else x) xs) = filter Q xs"
  using assms by (induction xs) auto

lemma updateTodo_others:
  "filter (\<lambda>t. todos_user_id t \<noteq> a) (todos (snd (updateTodo i a data now d))) =
   filter (\<lambda>t. todos_user_id t \<noteq> a) (todos d)"
proof (cases "dueDateToSet (up_due_date data)")
  case (Inl e)
  then show ?thesis by (simp add: updateTodo_def)
next
  case (Inr due)
  then show ?thesis
    by (simp add: updateTodo_def Let_def) (rule filter_map_scoped, simp add: setTodo_def)
qed

lemma deleteTodo_others:
  "filter (\<lambda>t. todos_user_id t \<noteq> a) (todos (snd (deleteTodo i a d))) =
   filter (\<lambda>t. todos_user_id t \<noteq> a) (todos d)"
  by (simp add: deleteTodo_def Let_def) (rule filter_cong, auto)

lemma updateCategory_others:
  "filter (\<lambda>c. categories_user_id c \<noteq> a) (categories (snd (updateCategory i a data d))) =
   filter (\<lambda>c. categories_user_id c \<noteq> a) (categories d)"
proof (cases "cu_name data = None \<and> cu_color data = None")
  case True
  then show ?thesis by (simp add: updateCategory_def)
next
  case False
  then show ?thesis
    by (simp add: updateCategory_def Let_def) (rule filter_map_scoped, simp add: setCategory_def)
qed

lemma deleteCategory_others:
  "filter (\<lambda>c. categories_user_id c \<noteq> a) (categories (snd (deleteCategory i a d))) =
   filter (\<lambda>c. categories_user_id c \<noteq> a) (categories d)"
  by (simp add: deleteCategory_def Let_def) (rule filter_cong, auto)

section \<open>Ownership isolation\<close>

text \<open>
  C1, as stated, fails at one point: an \<^verbatim>\<open>updateCategory\<close> that carries no field does
  not return null for a category of another user. The update is refused before it reaches
  the store, and the caller gets \<^verbatim>\<open>Error("Failed to update category")\<close>.
\<close>

theorem updateCategory_without_field:
  "work \<in> set (categories example_db) \<and> categories_id work = ''c-work'' \<and>
   categories_user_id work \<noteq> alice \<and>
   updateCategory ''c-work'' alice \<lparr>cu_name = None, cu_color = None\<rparr> example_db =
     (Inl (Error ''Failed to update category''), example_db)"
  by (simp add: updateCategory_def example_defs)

text \<open>
  C1, amended. Under the primary keys of the schema, a todo or a category owned by another
  user is, to the requesting user \<open>a\<close>, exactly like an id that does not exist: the two
  reads return null, the two deletes return false, \<^verbatim>\<open>updateTodo\<close> returns null, and
  \<^verbatim>\<open>updateCategory\<close> returns null for every update that sets a field; the store is left
  as it was. An update that is refused as such (a category update with no field, a todo
  update whose due date is a string and not a \<^verbatim>\<open>Date\<close>) throws the same error in both
  cases. Whatever id is asked for, a row that is returned is owned by \<open>a\<close>, and the rows
  of the other users are the same before and after an update or a delete.
\<close>

theorem ownership_isolation:
  assumes "primary_keys d"
  shows "(t \<in> set (todos d) \<and> todos_user_id t \<noteq> a \<longrightarrow>
            getTodoById (todos_id t) a d = Inr None \<and>
            updateTodo (todos_id t) a data now d =
              (if \<exists>s. up_due_date data = Some (Some (DateString s))
               then (Inl (Error ''Failed to update todo''), d) else (Inr None, d)) \<and>
            deleteTodo (todos_id t) a d = (Inr False, d)) \<and>
         (x \<notin> set (map todos_id (todos d)) \<longrightarrow>
            getTodoById x a d = Inr None \<and>
            updateTodo x a data now d =
              (if \<exists>s. up_due_date data = Some (Some (DateString s))
               then (Inl (Error ''Failed to update todo''), d) else (Inr None, d)) \<and>
            deleteTodo x a d = (Inr False, d)) \<and>
         (c \<in> set (categories d) \<and> categories_user_id c \<noteq> a \<longrightarrow>
            getCategoryById (categories_id c) a d = Inr None \<and>
            updateCategory (categories_id c) a cdata d =
              (if cu_name cdata = None \<and> cu_color cdata = None
               then (Inl (Error ''Failed to update category''), d) else (Inr None, d)) \<and>
            deleteCategory (categories_id c) a d = (Inr False, d)) \<and>
         (y \<notin> set (map categories_id (categories d)) \<longrightarrow>
            getCategoryById y a d = Inr None \<and>
            updateCategory y a cdata d =
              (if cu_name cdata = None \<and> cu_color cdata = None
               then (Inl (Error ''Failed to update category''), d) else (Inr None, d)) \<and>
            deleteCategory y a d = (Inr False, d)) \<and>
         (getTodoById i a d = Inr (Some r) \<longrightarrow> todos_user_id r = a) \<and>
         (fst (updateTodo i a data now d) = Inr (Some r) \<longrightarrow> todos_user_id r = a) \<and>
         (getCategoryById j a d = Inr (Some k) \<longrightarrow> categories_user_id k = a) \<and>
         (fst (updateCategory j a cdata d) = Inr (Some k) \<longrightarrow> categories_user_id k = a) \<and>
         filter (\<lambda>r. todos_user_id r \<noteq> a) (todos (snd (updateTodo i a data now d))) =
           filter (\<lambda>r. todos_user_id r \<noteq> a) (todos d) \<and>
         filter (\<lambda>r. todos_user_id r \<noteq> a) (todos (snd (deleteTodo i a d))) =
           filter (\<lambda>r. todos_user_id r \<noteq> a) (todos d) \<and>
         filter (\<lambda>k. categories_user_id k \<noteq> a) (categories (snd (updateCategory j a cdata d))) =
           filter (\<lambda>k. categories_user_id k \<noteq> a) (categories d) \<and>
         filter (\<lambda>k. categories_user_id k \<noteq> a) (categories (snd (deleteCategory j a d))) =
           filter (\<lambda>k. categories_user_id k \<noteq> a) (categories d)"
proof -
  have pk: "distinct (map todos_id (todos d))" "distinct (map categories_id (categories d))"
    using assms by (simp_all add: primary_keys_def)
  have foreign_todo: "getTodoById (todos_id t) a d = Inr None \<and>
      updateTodo (todos_id t) a data now d =
        (if \<exists>s. up_due_date data = Some (Some (DateString s))
         then (Inl (Error ''Failed to update todo''), d) else (Inr None, d)) \<and>
      deleteTodo (todos_id t) a d = (Inr False, d)"
    if "t \<in> set (todos d)" "todos_user_id t \<noteq> a"
    using todo_ops_no_hit
      [OF key_owner_no_hit [of todos_id "todos d" t todos_user_id a, OF pk(1) that]]
    by blast
  have absent_todo: "getTodoById x a d = Inr None \<and>
      updateTodo x a data now d =
        (if \<exists>s. up_due_date data = Some (Some (DateString s))
         then (Inl (Error ''Failed to update todo''), d) else (Inr None, d)) \<and>
      deleteTodo x a d = (Inr False, d)"
    if "x \<notin> set (map todos_id (todos d))"
    using todo_ops_no_hit
      [OF absent_key_no_hit [of x todos_id "todos d" todos_user_id a, OF that]]
    by blast
  have foreign_cat: "getCategoryById (categories_id c) a d = Inr None \<and>
      updateCategory (categories_id c) a cdata d =
        (if cu_name cdata = None \<and> cu_color cdata = None
         then (Inl (Error ''Failed to update category''), d) else (Inr None, d)) \<and>
      deleteCategory (categories_id c) a d = (Inr False, d)"
    if "c \<in> set (categories d)" "categories_user_id c \<noteq> a"
    using category_ops_no_hit
      [OF key_owner_no_hit [of categories_id "categories d" c categories_user_id a,
          OF pk(2) that]]
    by blast
  have absent_cat: "getCategoryById y a d = Inr None \<and>
      updateCategory y a cdata d =
        (if cu_name cdata = None \<and> cu_color cdata = None
         then (Inl (Error ''Failed to update category''), d) else (Inr None, d)) \<and>
      deleteCategory y a d = (Inr False, d)"
    if "y \<notin> set (map categories_id (categories d))"
    using category_ops_no_hit
      [OF absent_key_no_hit [of y categories_id "categories d" categories_user_id a, OF that]]
    by blast
  show ?thesis
    using foreign_todo absent_todo foreign_cat absent_cat
      getTodoById_owner [of i a d r] updateTodo_owner [of i a data now d r]
      getCategoryById_owner [of j a d k] updateCategory_owner [of j a cdata d k]
      updateTodo_others [of a i data now d] deleteTodo_others [of a i d]
      updateCategory_others [of a j cdata d] deleteCategory_others [of a j d]
    by blast
qed

theorem ownership_isolation_witness:
  "primary_keys example_db \<and> taxes \<in> set (todos example_db) \<and> todos_user_id taxes \<noteq> alice \<and>
   work \<in> set (categories example_db) \<and> categories_user_id work \<noteq> alice \<and>
   ''t-none'' \<notin> set (map todos_id (todos example_db)) \<and>
   ''c-none'' \<notin> set (map categories_id (categories example_db)) \<and>
   getTodoById ''t-taxes'' alice example_db = Inr None \<and>
   getTodoById ''t-none'' alice example_db = Inr None \<and>
   updateTodo ''t-taxes'' alice (noUpdate\<lparr>up_title := Some ''mine''\<rparr>) 900 example_db =
     (Inr None, example_db) \<and>
   updateTodo ''t-none'' alice (noUpdate\<lparr>up_title := Some ''mine''\<rparr>) 900 example_db =
     (Inr None, example_db) \<and>
   deleteTodo ''t-taxes'' alice example_db = (Inr False, example_db) \<and>
   deleteTodo ''t-none'' alice example_db = (Inr False, example_db) \<and>
   getCategoryById ''c-work'' alice example_db = Inr None \<and>
   getCategoryById ''c-none'' alice example_db = Inr None \<and>
   updateCategory ''c-work'' alice \<lparr>cu_name = Some ''mine'', cu_color = None\<rparr> example_db =
     (Inr None, example_db) \<and>
   updateCategory ''c-none'' alice \<lparr>cu_name = Some ''mine'', cu_color = None\<rparr> example_db =
     (Inr None, example_db) \<and>
   deleteCategory ''c-work'' alice example_db = (Inr False, example_db) \<and>
   deleteCategory ''c-none'' alice example_db = (Inr False, example_db) \<and>
   getTodoById ''t-milk'' alice example_db = Inr (Some milk) \<and> todos_user_id milk = alice \<and>
   getCategoryById ''c-home'' alice example_db = Inr (Some home) \<and>
   categories_user_id home = alice"
proof -
  have h: "primary_keys example_db"
    by (simp add: primary_keys_def example_defs)
  have g: "taxes \<in> set (todos example_db)"
    "todos_user_id taxes \<noteq> alice" "work \<in> set (categories example_db)"
    "categories_user_id work \<noteq> alice"
    "''t-none'' \<notin> set (map todos_id (todos example_db))"
    "''c-none'' \<notin> set (map categories_id (categories example_db))"
    by (simp_all add: example_defs)
  have own: "getTodoById ''t-milk'' alice example_db = Inr (Some milk)"
    "getCategoryById ''c-home'' alice example_db = Inr (Some home)"
    by (simp_all add: getTodoById_def getCategoryById_def example_defs)
  have ids: "todos_id taxes = ''t-taxes''" "categories_id work = ''c-work''"
    by (simp_all add: example_defs)
  have upd: "\<not> (\<exists>s. up_due_date (noUpdate\<lparr>up_title := Some ''mine''\<rparr>) =
      Some (Some (DateString s)))"
    by (simp add: noUpdate_def)
  show ?thesis
    using h g own upd
      ownership_isolation [OF h, where t = taxes and a = alice and c = work
        and x = "''t-none''" and y = "''c-none''"
        and data = "noUpdate\<lparr>up_title := Some ''mine''\<rparr>" and now = 900
        and cdata = "\<lparr>cu_name = Some ''mine'', cu_color = None\<rparr>"
        and i = "''t-milk''" and r = milk and j = "''c-home''" and k = home]
    unfolding ids by simp
qed

section \<open>Replacing the categories of a todo\<close>

lemma getTodoById_todoCategories [simp]:
  "getTodoById i a (d\<lparr>todoCategories := rows\<rparr>) = getTodoById i a d"
  by (simp add: getTodoById_def)

lemma getUserCategories_todoCategories [simp]:
  "getUserCategories a (d\<lparr>todoCategories := rows\<rparr>) = getUserCategories a d"
  by (simp add: getUserCategories_def)

lemma getTodoById_categories [simp]:
  "getTodoById i a (d\<lparr>categories := cs\<rparr>) = getTodoById i a d"
  by (simp add: getTodoById_def)

subsection \<open>Inserting associations\<close>

lemma onConflictDoNothing_other_todos:
  "filter (\<lambda>r. tc_todo_id r \<noteq> t) (onConflictDoNothing rows (map (Pair t) cs) now) =
   filter (\<lambda>r. tc_todo_id r \<noteq> t) rows"
proof (induction cs arbitrary: rows)
  case Nil
  show ?case by simp
next
  case (Cons c cs)
  show ?case by (simp add: Cons.IH)
qed

lemma onConflictDoNothing_count:
  fixes t c
  defines "P \<equiv> (\<lambda>r. tc_todo_id r = t \<and> tc_category_id r = c)"
  shows "length (filter P (onConflictDoNothing rows vs now)) =
   (if \<exists>r\<in>set rows. P r then length (filter P rows)
    else if (t, c) \<in> set vs then 1 else 0)"
proof (induction vs arbitrary: rows)
  case Nil
  show ?case by (simp add: filter_empty_conv)
next
  case (Cons v vs)
  obtain t' c' where v: "v = (t', c')" by (cases v)
  let ?new = "\<lparr> tc_todo_id = t', tc_category_id = c', tc_created_at = now \<rparr>"
  show ?case
  proof (cases "list_ex (\<lambda>r. tc_todo_id r = t' \<and> tc_category_id r = c') rows")
    case True
    then have step: "onConflictDoNothing rows ((t', c') # vs) now =
        onConflictDoNothing rows vs now"
      by simp
    have "(t', c') = (t, c) \<Longrightarrow> \<exists>r\<in>set rows. P r"
      using True by (auto simp: list_ex_iff P_def)
    then show ?thesis
      unfolding v step Cons.IH by auto
  next
    case False
    then have step: "onConflictDoNothing rows ((t', c') # vs) now =
        onConflictDoNothing (rows @ [?new]) vs now"
      by simp
    have new: "P ?new \<longleftrightarrow> (t', c') = (t, c)"
      by (auto simp: P_def)
    have fresh: "(t', c') = (t, c) \<Longrightarrow> \<not> (\<exists>r\<in>set rows. P r)"
      using False by (auto simp: list_ex_iff P_def)
    have none: "\<not> (\<exists>r\<in>set rows. P r) \<Longrightarrow> filter P rows = []"
      by (simp add: filter_empty_conv)
    show ?thesis
    proof (cases "(t', c') = (t, c)")
      case True
      with fresh none new show ?thesis
        unfolding v step Cons.IH by simp
    next
      case False
      with new have "\<not> P ?new" by simp
      with False show ?thesis
        unfolding v step Cons.IH by auto
    qed
  qed
qed

lemma addCategoriesToTodo_owned:
  assumes "getTodoById todoId userId d = Inr (Some t)"
    and "set categoryIds \<subseteq>
           set (map categories_id (filter (\<lambda>c. categories_user_id c = userId) (categories d)))"
  shows "addCategoriesToTodo todoId categoryIds userId now d =
           (Inr (), d\<lparr>todoCategories :=
              onConflictDoNothing (todoCategories d) (map (Pair todoId) categoryIds) now\<rparr>)"
proof -
  have valid: "filter (\<lambda>i. i \<notin> set (map categories_id (sort_key categories_name
      (filter (\<lambda>c. categories_user_id c = userId) (categories d))))) categoryIds = []"
    using assms(2) by (auto simp: filter_empty_conv)
  have "todoId \<in> set (map todos_id (todos d))"
    using getTodoById_owner [OF assms(1)] by force
  moreover have "\<forall>c\<in>set categoryIds. c \<in> set (map categories_id (categories d))"
    using assms(2) by auto
  ultimately have fk: "list_all (\<lambda>(t, c). t \<in> set (map todos_id (todos d)) \<and>
      c \<in> set (map categories_id (categories d))) (map (Pair todoId) categoryIds)"
    by (simp add: list_all_iff)
  show ?thesis
    unfolding addCategoriesToTodo_def getUserCategories_def assms(1) Let_def
    by (simp add: valid insertTodoCategories_def fk del: set_map)
qed

lemma addCategoriesToTodo_unowned:
  assumes "getTodoById todoId userId d = Inr (Some t)"
    and "\<not> set categoryIds \<subseteq>
           set (map categories_id (filter (\<lambda>c. categories_user_id c = userId) (categories d)))"
  shows "addCategoriesToTodo todoId categoryIds userId now d =
           (Inl (Error ''Failed to add categories to todo''), d)"
proof -
  have invalid: "filter (\<lambda>i. i \<notin> set (map categories_id (sort_key categories_name
      (filter (\<lambda>c. categories_user_id c = userId) (categories d))))) categoryIds \<noteq> []"
    using assms(2) by (auto simp: filter_empty_conv)
  show ?thesis
    unfolding addCategoriesToTodo_def getUserCategories_def assms(1) Let_def
    using invalid by (simp del: set_map)
qed

lemma replaceTodoCategories_owned:
  assumes "getTodoById todoId userId d = Inr (Some t)"
    and "set categoryIds \<subseteq>
           set (map categories_id (filter (\<lambda>c. categories_user_id c = userId) (categories d)))"
  shows "replaceTodoCategories todoId categoryIds userId now d =
           (Inr (), d\<lparr>todoCategories :=
              onConflictDoNothing (filter (\<lambda>tc. tc_todo_id tc \<noteq> todoId) (todoCategories d))
                (map (Pair todoId) categoryIds) now\<rparr>)"
proof (cases "categoryIds = []")
  case True
  then show ?thesis
    by (simp add: replaceTodoCategories_def assms(1))
next
  case False
  let ?d1 = "d\<lparr>todoCategories := filter (\<lambda>tc. tc_todo_id tc \<noteq> todoId) (todoCategories d)\<rparr>"
  have "getTodoById todoId userId ?d1 = Inr (Some t)"
    using assms(1) by simp
  moreover have "set categoryIds \<subseteq> set (map categories_id
      (filter (\<lambda>c. categories_user_id c = userId) (categories ?d1)))"
    using assms(2) by simp
  ultimately have "addCategoriesToTodo todoId categoryIds userId now ?d1 =
      (Inr (), ?d1\<lparr>todoCategories :=
         onConflictDoNothing (todoCategories ?d1) (map (Pair todoId) categoryIds) now\<rparr>)"
    by (rule addCategoriesToTodo_owned)
  then show ?thesis
    using False by (simp add: replaceTodoCategories_def assms(1) Let_def)
qed

lemma replaceTodoCategories_unowned:
  assumes "getTodoById todoId userId d = Inr (Some t)"
    and "\<not> set categoryIds \<subseteq>
           set (map categories_id (filter (\<lambda>c. categories_user_id c = userId) (categories d)))"
  shows "replaceTodoCategories todoId categoryIds userId now d =
           (Inl (Error ''Failed to replace todo categories''),
            d\<lparr>todoCategories := filter (\<lambda>tc. tc_todo_id tc \<noteq> todoId) (todoCategories d)\<rparr>)"
proof -
  let ?d1 = "d\<lparr>todoCategories := filter (\<lambda>tc. tc_todo_id tc \<noteq> todoId) (todoCategories d)\<rparr>"
  have nonempty: "categoryIds \<noteq> []" using assms(2) by auto
  have "getTodoById todoId userId ?d1 = Inr (Some t)"
    using assms(1) by simp
  moreover have "\<not> set categoryIds \<subseteq> set (map categories_id
      (filter (\<lambda>c. categories_user_id c = userId) (categories ?d1)))"
    using assms(2) by simp
  ultimately have "addCategoriesToTodo todoId categoryIds userId now ?d1 =
      (Inl (Error ''Failed to add categories to todo''), ?d1)"
    by (rule addCategoriesToTodo_unowned)
  then show ?thesis
    using nonempty by (simp add: replaceTodoCategories_def assms(1) Let_def)
qed

text \<open>
  C2. Replacing the categories of an owned todo with a list that holds a category of
  another user, on the example store: the call throws, but what the caller gets is
  \<^verbatim>\<open>Error("Failed to replace todo categories")\<close> (the catch blocks of
  \<^verbatim>\<open>addCategoriesToTodo\<close> and \<^verbatim>\<open>replaceTodoCategories\<close> replace the message thrown at
  the check), and the association the todo had is gone: the delete ran before the check.
\<close>

theorem replaceTodoCategories_unowned_category:
  "getTodoById ''t-milk'' alice example_db = Inr (Some milk) \<and>
   getCategoryById ''c-home'' alice example_db = Inr (Some home) \<and>
   getCategoryById ''c-work'' alice example_db = Inr None \<and>
   filter (\<lambda>tc. tc_todo_id tc = ''t-milk'') (todoCategories example_db) =
     [\<lparr> tc_todo_id = ''t-milk'', tc_category_id = ''c-home'', tc_created_at = 110 \<rparr>] \<and>
   replaceTodoCategories ''t-milk'' [''c-home'', ''c-work''] alice 900 example_db =
     (Inl (Error ''Failed to replace todo categories''),
      example_db\<lparr>todoCategories :=
        [\<lparr> tc_todo_id = ''t-taxes'', tc_category_id = ''c-work'', tc_created_at = 210 \<rparr>]\<rparr>) \<and>
   filter (\<lambda>tc. tc_todo_id tc = ''t-milk'')
     (todoCategories (snd (replaceTodoCategories ''t-milk'' [''c-home'', ''c-work''] alice 900
        example_db))) = []"
  by (simp add: replaceTodoCategories_def addCategoriesToTodo_def getUserCategories_def
      insertTodoCategories_def getTodoById_def getCategoryById_def example_defs)

text \<open>
  C4. Replacing the categories of an owned todo twice with the same list of owned
  category ids succeeds both times and leaves, for every category id \<open>c\<close>, exactly one
  association row (todo, \<open>c\<close>) when \<open>c\<close> is in the list and none otherwise, also when the
  list names a category more than once.
\<close>

theorem replaceTodoCategories_twice:
  assumes "getTodoById todoId userId d = Inr (Some t)"
    and "set categoryIds \<subseteq>
           set (map categories_id (filter (\<lambda>c. categories_user_id c = userId) (categories d)))"
  shows "fst (replaceTodoCategories todoId categoryIds userId now d) = Inr () \<and>
         fst (replaceTodoCategories todoId categoryIds userId now'
                (snd (replaceTodoCategories todoId categoryIds userId now d))) = Inr () \<and>
         length (filter (\<lambda>r. tc_todo_id r = todoId \<and> tc_category_id r = c)
           (todoCategories (snd (replaceTodoCategories todoId categoryIds userId now'
              (snd (replaceTodoCategories todoId categoryIds userId now d)))))) =
           (if c \<in> set categoryIds then 1 else 0)"
proof -
  let ?others = "filter (\<lambda>tc. tc_todo_id tc \<noteq> todoId) (todoCategories d)"
  let ?d1 = "d\<lparr>todoCategories :=
      onConflictDoNothing ?others (map (Pair todoId) categoryIds) now\<rparr>"
  have first: "replaceTodoCategories todoId categoryIds userId now d = (Inr (), ?d1)"
    using assms by (rule replaceTodoCategories_owned)
  have "getTodoById todoId userId ?d1 = Inr (Some t)"
    using assms(1) by simp
  moreover have "set categoryIds \<subseteq> set (map categories_id
      (filter (\<lambda>c. categories_user_id c = userId) (categories ?d1)))"
    using assms(2) by simp
  ultimately have "replaceTodoCategories todoId categoryIds userId now' ?d1 =
      (Inr (), ?d1\<lparr>todoCategories :=
         onConflictDoNothing (filter (\<lambda>tc. tc_todo_id tc \<noteq> todoId) (todoCategories ?d1))
           (map (Pair todoId) categoryIds) now'\<rparr>)"
    by (rule replaceTodoCategories_owned)
  then have second: "replaceTodoCategories todoId categoryIds userId now' ?d1 =
      (Inr (), d\<lparr>todoCategories :=
         onConflictDoNothing ?others (map (Pair todoId) categoryIds) now'\<rparr>)"
    by (simp add: onConflictDoNothing_other_todos)
  have none: "\<not> (\<exists>r\<in>set ?others. tc_todo_id r = todoId \<and> tc_category_id r = c)"
    by simp
  have "length (filter (\<lambda>r. tc_todo_id r = todoId \<and> tc_category_id r = c)
      (onConflictDoNothing ?others (map (Pair todoId) categoryIds) now')) =
      (if c \<in> set categoryIds then 1 else 0)"
    unfolding onConflictDoNothing_count using none by auto
  then show ?thesis
    unfolding first snd_conv fst_conv second by simp
qed

theorem replaceTodoCategories_twice_witness:
  "getTodoById ''t-milk'' alice example_db = Inr (Some milk) \<and>
   set [''c-home'', ''c-home''] \<subseteq> set (map categories_id
     (filter (\<lambda>c. categories_user_id c = alice) (categories example_db))) \<and>
   todoCategories (snd (replaceTodoCategories ''t-milk'' [''c-home'', ''c-home''] alice 901
     (snd (replaceTodoCategories ''t-milk'' [''c-home'', ''c-home''] alice 900 example_db)))) =
     [\<lparr> tc_todo_id = ''t-taxes'', tc_category_id = ''c-work'', tc_created_at = 210 \<rparr>,
      \<lparr> tc_todo_id = ''t-milk'', tc_category_id = ''c-home'', tc_created_at = 901 \<rparr>] \<and>
   length (filter (\<lambda>r. tc_todo_id r = ''t-milk'' \<and> tc_category_id r = ''c-home'')
     (todoCategories (snd (replaceTodoCategories ''t-milk'' [''c-home'', ''c-home''] alice 901
       (snd (replaceTodoCategories ''t-milk'' [''c-home'', ''c-home''] alice 900
          example_db)))))) = 1"
proof -
  have h: "getTodoById ''t-milk'' alice example_db = Inr (Some milk)"
    "set [''c-home'', ''c-home''] \<subseteq> set (map categories_id
       (filter (\<lambda>c. categories_user_id c = alice) (categories example_db)))"
    by (simp_all add: getTodoById_def example_defs)
  have run: "todoCategories (snd (replaceTodoCategories ''t-milk'' [''c-home'', ''c-home''] alice 901
     (snd (replaceTodoCategories ''t-milk'' [''c-home'', ''c-home''] alice 900 example_db)))) =
     [\<lparr> tc_todo_id = ''t-taxes'', tc_category_id = ''c-work'', tc_created_at = 210 \<rparr>,
      \<lparr> tc_todo_id = ''t-milk'', tc_category_id = ''c-home'', tc_created_at = 901 \<rparr>]"
    by (simp add: replaceTodoCategories_def addCategoriesToTodo_def getUserCategories_def
        insertTodoCategories_def getTodoById_def example_defs)
  show ?thesis
    using h run replaceTodoCategories_twice [OF h, of 900 901 "''c-home''"] by simp
qed

text \<open>
  C10. Replacing the categories of an owned todo with the empty list succeeds and leaves
  the todo without any association row. The categories table is not consulted: the
  outcome is the same whatever that table holds.
\<close>

theorem replaceTodoCategories_empty:
  assumes "getTodoById todoId userId d = Inr (Some t)"
  shows "replaceTodoCategories todoId [] userId now d =
           (Inr (), d\<lparr>todoCategories :=
              filter (\<lambda>tc. tc_todo_id tc \<noteq> todoId) (todoCategories d)\<rparr>) \<and>
         filter (\<lambda>tc. tc_todo_id tc = todoId)
           (todoCategories (snd (replaceTodoCategories todoId [] userId now d))) = [] \<and>
         replaceTodoCategories todoId [] userId now (d\<lparr>categories := cs\<rparr>) =
           (Inr (), d\<lparr>categories := cs, todoCategories :=
              filter (\<lambda>tc. tc_todo_id tc \<noteq> todoId) (todoCategories d)\<rparr>)"
  using assms by (simp add: replaceTodoCategories_def filter_empty_conv)

theorem replaceTodoCategories_empty_witness:
  "getTodoById ''t-milk'' alice example_db = Inr (Some milk) \<and>
   filter (\<lambda>tc. tc_todo_id tc = ''t-milk'') (todoCategories example_db) \<noteq> [] \<and>
   replaceTodoCategories ''t-milk'' [] alice 900 example_db =
     (Inr (), example_db\<lparr>todoCategories :=
        [\<lparr> tc_todo_id = ''t-taxes'', tc_category_id = ''c-work'', tc_created_at = 210 \<rparr>]\<rparr>)"
proof -
  have h: "getTodoById ''t-milk'' alice example_db = Inr (Some milk)"
    by (simp add: getTodoById_def example_defs)
  show ?thesis
    using h replaceTodoCategories_empty [OF h, of 900 "[]"] by (simp add: example_db_def)
qed

section \<open>Deleting a category\<close>

text \<open>
  C7. Deleting a category the user owns returns true, removes the category row and
  exactly the association rows that reference it, and leaves every todo (and every user)
  as it was.
\<close>

theorem deleteCategory_cascade:
  assumes "getCategoryById categoryId userId d = Inr (Some c)"
    and "distinct (map categories_id (categories d))"
  shows "fst (deleteCategory categoryId userId d) = Inr True \<and>
         categoryId \<notin> set (map categories_id (categories (snd (deleteCategory categoryId userId d)))) \<and>
         categories (snd (deleteCategory categoryId userId d)) =
           filter (\<lambda>k. categories_id k \<noteq> categoryId) (categories d) \<and>
         todoCategories (snd (deleteCategory categoryId userId d)) =
           filter (\<lambda>tc. tc_category_id tc \<noteq> categoryId) (todoCategories d) \<and>
         todos (snd (deleteCategory categoryId userId d)) = todos d \<and>
         users (snd (deleteCategory categoryId userId d)) = users d"
proof -
  let ?hit = "\<lambda>k. categories_id k = categoryId \<and> categories_user_id k = userId"
  have c: "c \<in> set (categories d)" "categories_id c = categoryId" "categories_user_id c = userId"
    using getCategoryById_owner [OF assms(1)] by simp_all
  have "inj_on categories_id (set (categories d))"
    using assms(2) by (simp add: distinct_map)
  then have only: "\<And>k. k \<in> set (categories d) \<Longrightarrow> categories_id k = categoryId \<Longrightarrow> k = c"
    using c(1,2) by (auto dest: inj_onD)
  have hit: "set (map categories_id (filter ?hit (categories d))) = {categoryId}"
    using c by auto
  have rest: "filter (\<lambda>k. \<not> ?hit k) (categories d) =
      filter (\<lambda>k. categories_id k \<noteq> categoryId) (categories d)"
    using only c(3) by (auto intro!: filter_cong)
  have nonempty: "filter ?hit (categories d) \<noteq> []"
    using c by (auto simp: filter_empty_conv)
  have del: "deleteCategory categoryId userId d =
      (Inr True, d\<lparr>categories := filter (\<lambda>k. categories_id k \<noteq> categoryId) (categories d),
                   todoCategories :=
                     filter (\<lambda>tc. tc_category_id tc \<noteq> categoryId) (todoCategories d)\<rparr>)"
    unfolding deleteCategory_def Let_def hit rest using nonempty by simp
  show ?thesis unfolding del by auto
qed

theorem deleteCategory_cascade_witness:
  "getCategoryById ''c-home'' alice example_db = Inr (Some home) \<and>
   distinct (map categories_id (categories example_db)) \<and>
   deleteCategory ''c-home'' alice example_db =
     (Inr True, example_db\<lparr>categories := [work],
        todoCategories :=
          [\<lparr> tc_todo_id = ''t-taxes'', tc_category_id = ''c-work'', tc_created_at = 210 \<rparr>]\<rparr>) \<and>
   todos (snd (deleteCategory ''c-home'' alice example_db)) = [milk, taxes]"
proof -
  have h: "getCategoryById ''c-home'' alice example_db = Inr (Some home)"
    "distinct (map categories_id (categories example_db))"
    by (simp_all add: getCategoryById_def example_defs)
  have "deleteCategory ''c-home'' alice example_db =
     (Inr True, example_db\<lparr>categories := [work],
        todoCategories :=
          [\<lparr> tc_todo_id = ''t-taxes'', tc_category_id = ''c-work'', tc_created_at = 210 \<rparr>]\<rparr>)"
    by (simp add: deleteCategory_def example_defs)
  then show ?thesis
    using h deleteCategory_cascade [OF h] by (simp add: example_db_def)
qed

section \<open>Listing todos with a category filter\<close>

lemma conditions_categoryId [simp]:
  "conditions like userId (Some (f\<lparr>f_categoryId := x\<rparr>)) = conditions like userId (Some f)"
  by (rule ext) (simp add: conditions_def split: option.splits)

lemma set_orderBy [simp]: "set (orderBy fld dir rows) = set rows"
  by (cases fld; cases dir) (simp_all add: orderBy_def)

lemma getUserTodos_unfiltered:
  "getUserTodos like userId (Some (f\<lparr>f_categoryId := None\<rparr>)) sorting d =
     Inr (orderBy (case sorting of None \<Rightarrow> Created_at | Some (fld, dir) \<Rightarrow> fld)
            (case sorting of None \<Rightarrow> Desc | Some (fld, dir) \<Rightarrow> dir)
            (filter (conditions like userId (Some f)) (todos d)))"
  by (simp add: getUserTodos_def)

lemma getUserTodos_filtered:
  "getUserTodos like userId (Some (f\<lparr>f_categoryId := Some categoryId\<rparr>)) sorting d =
     Inr (filter (\<lambda>t. categoryId \<noteq> [] \<longrightarrow> todos_id t \<in> set (map tc_todo_id
              (filter (\<lambda>tc. tc_category_id tc = categoryId) (todoCategories d))))
            (orderBy (case sorting of None \<Rightarrow> Created_at | Some (fld, dir) \<Rightarrow> fld)
               (case sorting of None \<Rightarrow> Desc | Some (fld, dir) \<Rightarrow> dir)
               (filter (conditions like userId (Some f)) (todos d))))"
  by (simp add: getUserTodos_def Let_def)

text \<open>
  C9. \<^verbatim>\<open>getUserTodos\<close> with a category filter, for any category id at all: every todo
  returned is owned by the requesting user, the result is a subsequence of what the same
  call returns without the category filter, and it does not depend on the categories
  table (the owner of the category is never looked up).
\<close>

theorem getUserTodos_category_filter:
  "\<exists>res unfiltered.
     getUserTodos like userId (Some (f\<lparr>f_categoryId := Some categoryId\<rparr>)) sorting d = Inr res \<and>
     getUserTodos like userId (Some (f\<lparr>f_categoryId := None\<rparr>)) sorting d = Inr unfiltered \<and>
     (\<forall>t\<in>set res. todos_user_id t = userId) \<and>
     subseq res unfiltered \<and>
     getUserTodos like userId (Some (f\<lparr>f_categoryId := Some categoryId\<rparr>)) sorting
       (d\<lparr>categories := cs\<rparr>) = Inr res"
proof -
  let ?all = "orderBy (case sorting of None \<Rightarrow> Created_at | Some (fld, dir) \<Rightarrow> fld)
      (case sorting of None \<Rightarrow> Desc | Some (fld, dir) \<Rightarrow> dir)
      (filter (conditions like userId (Some f)) (todos d))"
  let ?res = "filter (\<lambda>t. categoryId \<noteq> [] \<longrightarrow> todos_id t \<in> set (map tc_todo_id
      (filter (\<lambda>tc. tc_category_id tc = categoryId) (todoCategories d)))) ?all"
  have owned: "\<forall>t\<in>set ?res. todos_user_id t = userId"
    by (simp add: conditions_def)
  have sub: "subseq ?res ?all"
    by (rule subseq_filter_left)
  have same: "getUserTodos like userId (Some (f\<lparr>f_categoryId := Some categoryId\<rparr>)) sorting
      (d\<lparr>categories := cs\<rparr>) = Inr ?res"
    unfolding getUserTodos_filtered by simp
  show ?thesis
    using owned sub same getUserTodos_filtered getUserTodos_unfiltered by blast
qed

theorem getUserTodos_category_filter_witness:
  "getUserTodos (\<lambda>v p. False) alice
     (Some \<lparr>f_isCompleted = Some False, f_priority = None, f_categoryId = Some ''c-home'',
            f_search = None\<rparr>) (Some (Title, Asc)) example_db = Inr [milk] \<and>
   getUserTodos (\<lambda>v p. False) alice
     (Some \<lparr>f_isCompleted = Some False, f_priority = None, f_categoryId = Some ''c-work'',
            f_search = None\<rparr>) (Some (Title, Asc)) example_db = Inr [] \<and>
   getUserTodos (\<lambda>v p. False) alice
     (Some \<lparr>f_isCompleted = Some False, f_priority = None, f_categoryId = None,
            f_search = None\<rparr>) (Some (Title, Asc)) example_db = Inr [milk] \<and>
   todos_user_id milk = alice \<and> subseq [milk] [milk]"
proof -
  let ?f = "\<lparr>f_isCompleted = Some False, f_priority = None, f_categoryId = None,
      f_search = None\<rparr>"
  have run: "getUserTodos (\<lambda>v p. False) alice (Some (?f\<lparr>f_categoryId := Some ''c-home''\<rparr>))
      (Some (Title, Asc)) example_db = Inr [milk]"
    "getUserTodos (\<lambda>v p. False) alice (Some (?f\<lparr>f_categoryId := Some ''c-work''\<rparr>))
      (Some (Title, Asc)) example_db = Inr []"
    "getUserTodos (\<lambda>v p. False) alice (Some ?f) (Some (Title, Asc)) example_db = Inr [milk]"
    by (simp_all add: getUserTodos_def orderBy_def conditions_def example_defs)
  show ?thesis
    using run getUserTodos_category_filter [where like = "\<lambda>v p. False" and userId = alice
        and f = ?f and categoryId = "''c-home''" and sorting = "Some (Title, Asc)"
        and d = example_db and cs = "[]"]
    by auto
qed

section \<open>The error handler\<close>

lemma rethrow_eq_Inl: "rethrow msg r = Inl x \<Longrightarrow> x = Error msg"
  by (cases r) simp_all

lemma unclassified_messages:
  "list_all (\<lambda>m. \<not> str_includes m ''not found'' \<and> \<not> str_includes m ''unauthorized'' \<and>
     \<not> str_includes m ''No user found'' \<and> \<not> str_includes m ''forbidden'') queryLayerMessages"
  by code_simp

lemma handleError_query_layer:
  "m \<in> set queryLayerMessages \<Longrightarrow> handleError (Error m) = errorResponse m 500 None"
  using unclassified_messages by (simp add: list_all_iff handleError_def)

lemma createTodo_throws:
  "fst (createTodo data g ts d) = Inl x \<Longrightarrow> x = Error ''Failed to create todo''"
  by (auto simp: createTodo_def split: sum.splits if_splits)

lemma fst_rethrown: "fst (case p of (r, d') \<Rightarrow> (rethrow m r, d')) = rethrow m (fst p)"
  by (cases p) simp

lemma addCategoriesToTodo_throws:
  "fst (addCategoriesToTodo t cs u ts d) = Inl x \<Longrightarrow> x = Error ''Failed to add categories to todo''"
  unfolding addCategoriesToTodo_def Let_def fst_rethrown by (rule rethrow_eq_Inl)

lemma replaceTodoCategories_throws:
  "fst (replaceTodoCategories t cs u ts d) = Inl x \<Longrightarrow>
     x = Error ''Failed to replace todo categories''"
  unfolding replaceTodoCategories_def Let_def fst_rethrown by (rule rethrow_eq_Inl)

text \<open>
  C6, as stated, fails: an \<^verbatim>\<open>Error\<close> whose message matches none of the patterns
  is answered with status 500 and with that very message in the body. Here the message is
  the driver's text of a refused connection.
\<close>

theorem handleError_raw_message:
  "\<not> str_includes ''connect ECONNREFUSED 10.0.0.5:5432'' ''not found'' \<and>
   \<not> str_includes ''connect ECONNREFUSED 10.0.0.5:5432'' ''unauthorized'' \<and>
   \<not> str_includes ''connect ECONNREFUSED 10.0.0.5:5432'' ''No user found'' \<and>
   \<not> str_includes ''connect ECONNREFUSED 10.0.0.5:5432'' ''forbidden'' \<and>
   handleError (Error ''connect ECONNREFUSED 10.0.0.5:5432'') =
     \<lparr> status = 500,
       body = ErrorBody \<lparr> error = ''connect ECONNREFUSED 10.0.0.5:5432'', code = 500,
                           validation = None \<rparr> \<rparr>"
  by (simp add: handleError_def errorResponse_def)

text \<open>
  C6, amended. For an \<^verbatim>\<open>Error\<close> whose message matches none of the patterns the
  handler answers 500 with the message of the error itself, unchanged; the fixed text
  "An unexpected error occurred" is kept for thrown values that are not errors. What keeps
  the internals of the store out of a response is the query layer: whatever fails inside
  one of its functions leaves it as an \<^verbatim>\<open>Error\<close> with the fixed message of that
  function's catch block, and the handler answers that message with 500.
\<close>

theorem handleError_unclassified:
  assumes "\<not> str_includes msg ''not found''"
    and "\<not> str_includes msg ''unauthorized''"
    and "\<not> str_includes msg ''No user found''"
    and "\<not> str_includes msg ''forbidden''"
  shows "handleError (Error msg) =
           \<lparr> status = 500, body = ErrorBody \<lparr> error = msg, code = 500, validation = None \<rparr> \<rparr> \<and>
         handleError NonError = errorResponse ''An unexpected error occurred'' 500 None \<and>
         (m \<in> set queryLayerMessages \<longrightarrow>
            rethrow m (Inl underlying) = Inl (Error m) \<and>
            handleError (Error m) = errorResponse m 500 None) \<and>
         (fst (createTodo data g ts d) = Inl x \<longrightarrow> x \<in> Error ` set queryLayerMessages) \<and>
         (fst (addCategoriesToTodo t cs u ts d) = Inl x \<longrightarrow>
            x \<in> Error ` set queryLayerMessages) \<and>
         (fst (replaceTodoCategories t cs u ts d) = Inl x \<longrightarrow>
            x \<in> Error ` set queryLayerMessages)"
proof -
  have raw: "handleError (Error msg) =
      \<lparr> status = 500, body = ErrorBody \<lparr> error = msg, code = 500, validation = None \<rparr> \<rparr>"
    using assms by (simp add: handleError_def errorResponse_def)
  have other: "handleError NonError = errorResponse ''An unexpected error occurred'' 500 None"
    by (simp add: handleError_def)
  have listed: "Error ''Failed to create todo'' \<in> Error ` set queryLayerMessages"
    "Error ''Failed to add categories to todo'' \<in> Error ` set queryLayerMessages"
    "Error ''Failed to replace todo categories'' \<in> Error ` set queryLayerMessages"
    by (simp_all add: queryLayerMessages_def)
  show ?thesis
    using raw other listed handleError_query_layer [of m]
      createTodo_throws [of data g ts d x] addCategoriesToTodo_throws [of t cs u ts d x]
      replaceTodoCategories_throws [of t cs u ts d x]
    by (auto simp del: set_simps)
qed

theorem handleError_unclassified_witness:
  "\<not> str_includes ''Unexpected token < in JSON'' ''not found'' \<and>
   \<not> str_includes ''Unexpected token < in JSON'' ''unauthorized'' \<and>
   \<not> str_includes ''Unexpected token < in JSON'' ''No user found'' \<and>
   \<not> str_includes ''Unexpected token < in JSON'' ''forbidden'' \<and>
   handleError (Error ''Unexpected token < in JSON'') =
     \<lparr> status = 500,
       body = ErrorBody \<lparr> error = ''Unexpected token < in JSON'', code = 500,
                           validation = None \<rparr> \<rparr> \<and>
   ''Failed to create todo'' \<in> set queryLayerMessages \<and>
   handleError (Error ''Failed to create todo'') = errorResponse ''Failed to create todo'' 500 None \<and>
   fst (replaceTodoCategories ''t-milk'' [''c-work''] alice 900 example_db) =
     Inl (Error ''Failed to replace todo categories'') \<and>
   Error ''Failed to replace todo categories'' \<in> Error ` set queryLayerMessages"
proof -
  have h: "\<not> str_includes ''Unexpected token < in JSON'' ''not found''"
    "\<not> str_includes ''Unexpected token < in JSON'' ''unauthorized''"
    "\<not> str_includes ''Unexpected token < in JSON'' ''No user found''"
    "\<not> str_includes ''Unexpected token < in JSON'' ''forbidden''"
    by simp_all
  have m: "''Failed to create todo'' \<in> set queryLayerMessages"
    by (simp add: queryLayerMessages_def)
  have run: "fst (replaceTodoCategories ''t-milk'' [''c-work''] alice 900 example_db) =
      Inl (Error ''Failed to replace todo categories'')"
    by (simp add: replaceTodoCategories_def addCategoriesToTodo_def getUserCategories_def
        getTodoById_def example_defs)
  show ?thesis
    using h m run
      handleError_unclassified [OF h, where m = "''Failed to create todo''"
        and t = "''t-milk''" and cs = "[''c-work'']" and u = alice and ts = 900
        and d = example_db and x = "Error ''Failed to replace todo categories''"]
    by (simp del: set_simps)
qed

section \<open>Updating a todo with no recognised field\<close>

lemma optional_absent [simp]: "optional s path None = Inr None"
  by (simp add: optional_def)

lemma optionalNullable_absent [simp]: "optionalNullable s path None = Inr Undefined"
  by (simp add: optionalNullable_def)

lemma updateTodoSchema_no_field:
  assumes "\<forall>k\<in>set recognizedFields. map_of entries k = None"
  shows "updateTodoSchema lib (JObject entries) =
           Inl [issue [] (Message ''At least one field must be provided for update'')]"
proof -
  have absent: "map_of entries ''title'' = None" "map_of entries ''description'' = None"
    "map_of entries ''priority'' = None" "map_of entries ''dueDate'' = None"
    "map_of entries ''isCompleted'' = None" "map_of entries ''categoryIds'' = None"
    using assms by (simp_all add: recognizedFields_def)
  show ?thesis
    by (simp add: updateTodoSchema_def absent objectKeys_def)
qed

text \<open>
  C8, as stated, fails: \<^verbatim>\<open>PATCH\<close> looks the todo up before it validates the body,
  so an empty body sent for an id that does not exist, or for a todo of another user, is
  answered 404 "Todo not found" and not with a validation failure.
\<close>

theorem PATCH_empty_body_unknown_todo:
  "getTodoById ''t-none'' alice example_db = Inr None \<and>
   PATCH example_lib example_env (Some alice) ''t-none'' (Parsed (JObject [])) example_db =
     (\<lparr> status = 404,
        body = ErrorBody \<lparr> error = ''Todo not found'', code = 404, validation = None \<rparr> \<rparr>,
      example_db) \<and>
   getTodoById ''t-taxes'' alice example_db = Inr None \<and>
   PATCH example_lib example_env (Some alice) ''t-taxes'' (Parsed (JObject [])) example_db =
     (\<lparr> status = 404,
        body = ErrorBody \<lparr> error = ''Todo not found'', code = 404, validation = None \<rparr> \<rparr>,
      example_db)"
  by (simp add: PATCH_def getUserId_def getTodoById_def errorResponse_def example_defs)

text \<open>
  C8, amended. A JSON object with none of the six recognised keys fails the update
  schema with the single issue "At least one field must be provided for update". In
  \<^verbatim>\<open>PATCH\<close> the lookup of the todo comes first: for a todo the user owns the answer is
  400 "Validation failed" with that issue, for any other id it is 404; in both cases the
  store is left as it was.
\<close>

theorem PATCH_no_recognized_field:
  assumes "\<forall>k\<in>set recognizedFields. map_of entries k = None"
  shows "updateTodoSchema lib (JObject entries) =
           Inl [issue [] (Message ''At least one field must be provided for update'')] \<and>
         (getTodoById todoId userId d = Inr (Some t) \<longrightarrow>
            PATCH lib env (Some userId) todoId (Parsed (JObject entries)) d =
              (errorResponse ''Validation failed'' 400
                 (Some [\<lparr> field = [],
                          message = Message ''At least one field must be provided for update'' \<rparr>]),
               d)) \<and>
         (getTodoById todoId userId d = Inr None \<longrightarrow>
            PATCH lib env (Some userId) todoId (Parsed (JObject entries)) d =
              (errorResponse ''Todo not found'' 404 None, d))"
  using updateTodoSchema_no_field [OF assms, of lib]
  by (simp add: PATCH_def getUserId_def requestJson_def handleError_def
      handleValidationError_def issue_def)

theorem PATCH_no_recognized_field_witness:
  "map_of [(''colour'', JString ''red'')] ''title'' = None \<and>
   map_of [(''colour'', JString ''red'')] ''description'' = None \<and>
   map_of [(''colour'', JString ''red'')] ''priority'' = None \<and>
   map_of [(''colour'', JString ''red'')] ''dueDate'' = None \<and>
   map_of [(''colour'', JString ''red'')] ''isCompleted'' = None \<and>
   map_of [(''colour'', JString ''red'')] ''categoryIds'' = None \<and>
   getTodoById ''t-milk'' alice example_db = Inr (Some milk) \<and>
   PATCH example_lib example_env (Some alice) ''t-milk''
     (Parsed (JObject [(''colour'', JString ''red'')])) example_db =
     (errorResponse ''Validation failed'' 400
        (Some [\<lparr> field = [],
                 message = Message ''At least one field must be provided for update'' \<rparr>]),
      example_db) \<and>
   getTodoById ''t-none'' alice example_db = Inr None \<and>
   PATCH example_lib example_env (Some alice) ''t-none''
     (Parsed (JObject [(''colour'', JString ''red'')])) example_db =
     (errorResponse ''Todo not found'' 404 None, example_db)"
proof -
  have h: "\<forall>k\<in>set recognizedFields. map_of [(''colour'', JString ''red'')] k = None"
    by (simp add: recognizedFields_def)
  have own: "getTodoById ''t-milk'' alice example_db = Inr (Some milk)"
    "getTodoById ''t-none'' alice example_db = Inr None"
    by (simp_all add: getTodoById_def example_defs)
  show ?thesis
    using h own
      PATCH_no_recognized_field [OF h, where todoId = "''t-milk''" and userId = alice
        and d = example_db and t = milk and lib = example_lib and env = example_env]
      PATCH_no_recognized_field [OF h, where todoId = "''t-none''" and userId = alice
        and d = example_db and lib = example_lib and env = example_env]
    by simp
qed

section \<open>Creating a todo: the due date\<close>

lemma getTodoWithCategories_found:
  "getTodoById i u d = Inr (Some t) \<Longrightarrow>
     getTodoWithCategories i u d = Inr (Some (t, joinCategories i d))"
  by (simp add: getTodoWithCategories_def)

lemma getTodoWithCategories_returns: "getTodoWithCategories i u d \<noteq> Inl e"
  by (simp add: getTodoWithCategories_def getTodoById_def split: option.splits)

lemma createTodo_failed:
  "createTodo data g ts d = (Inl e, d1) \<Longrightarrow>
     handleError e = errorResponse ''Failed to create todo'' 500 None"
  using createTodo_throws [of data g ts d e] handleError_query_layer [of "''Failed to create todo''"]
  by (simp add: queryLayerMessages_def)

lemma replaceTodoCategories_failed:
  "replaceTodoCategories t cs u ts d = (Inl e, d1) \<Longrightarrow>
     handleError e = errorResponse ''Failed to replace todo categories'' 500 None"
  using replaceTodoCategories_throws [of t cs u ts d e]
    handleError_query_layer [of "''Failed to replace todo categories''"]
  by (simp add: queryLayerMessages_def)

lemma createTodo_inserts:
  assumes "nt_due_date data = None"
    and "nt_user_id data \<in> set (map users_id (users d))"
    and "g \<notin> set (map todos_id (todos d))"
  shows "createTodo data g ts d =
           (Inr (withDefaults data None g ts),
            d\<lparr>todos := todos d @ [withDefaults data None g ts]\<rparr>)"
  using assms by (simp add: createTodo_def)

lemma getTodoById_inserted:
  assumes "g \<notin> set (map todos_id (todos d))"
    and "todos_id row = g" and "todos_user_id row = u"
  shows "getTodoById g u (d\<lparr>todos := todos d @ [row]\<rparr>) = Inr (Some row)"
proof -
  have "filter (\<lambda>t. todos_id t = g \<and> todos_user_id t = u) (todos d) = []"
    using assms(1) by (auto simp: filter_empty_conv)
  then show ?thesis
    using assms(2,3) by (simp add: getTodoById_def)
qed

lemma past_due_date:
  "truthy (ci_dueDate v) \<and> before lib (the (ci_dueDate v)) t \<longleftrightarrow>
     (\<exists>s dueDate. ci_dueDate v = Some s \<and> s \<noteq> [] \<and> datetime lib s = Some dueDate \<and> dueDate < t)"
  by (cases "ci_dueDate v") (auto simp: before_def split: option.splits)

lemma POST_status:
  assumes "createTodoSchema lib json = Inr v"
    and "\<not> (truthy (ci_dueDate v) \<and> before lib (the (ci_dueDate v)) (env_now env))"
  shows "status (fst (POST lib env (Some u) (Parsed json) d)) \<in> {201, 500}"
proof -
  obtain r d1 where cr: "createTodo (createData u v) (env_randomUuid env) (env_later env) d
      = (r, d1)"
    by (cases "createTodo (createData u v) (env_randomUuid env) (env_later env) d")
  have np: "(truthy (ci_dueDate v) \<and> before lib (the (ci_dueDate v)) (env_now env)) = False"
    using assms(2) by simp
  show ?thesis
  proof (cases r)
    case (Inl e)
    with cr assms(1) createTodo_failed [of _ _ _ d e d1] show ?thesis
      by (simp add: POST_def getUserId_def requestJson_def errorResponse_def np)
  next
    case (Inr newTodo)
    obtain r2 d2 where rp: "(case ci_categoryIds v of None \<Rightarrow> (Inr (), d1)
        | Some categoryIds \<Rightarrow>
            if length categoryIds > 0
            then replaceTodoCategories (todos_id newTodo) categoryIds u (env_later env) d1
            else (Inr (), d1)) = (r2, d2)"
      by (cases "(case ci_categoryIds v of None \<Rightarrow> (Inr (), d1)
        | Some categoryIds \<Rightarrow>
            if length categoryIds > 0
            then replaceTodoCategories (todos_id newTodo) categoryIds u (env_later env) d1
            else (Inr (), d1))")
    have post: "POST lib env (Some u) (Parsed json) d =
        (case (r2, d2) of
           (Inl e, d2) \<Rightarrow> (handleError e, d2)
         | (Inr x, d2) \<Rightarrow>
             (case getTodoWithCategories (todos_id newTodo) u d2 of
                Inl e \<Rightarrow> (handleError e, d2)
              | Inr None \<Rightarrow> (successResponse (TodoBody newTodo None) 201, d2)
              | Inr (Some (t, cs)) \<Rightarrow> (successResponse (TodoBody t (Some cs)) 201, d2)))"
      using assms(1) cr Inr rp
      by (simp add: POST_def getUserId_def requestJson_def np)
    show ?thesis
    proof (cases r2)
      case (Inl e)
      then have "handleError e = errorResponse ''Failed to replace todo categories'' 500 None"
        using rp replaceTodoCategories_failed [of "todos_id newTodo" _ u "env_later env" d1 e d2]
        by (auto split: option.splits if_splits)
      then show ?thesis
        using Inl by (simp add: post errorResponse_def)
    next
      case (Inr x)
      then show ?thesis
        using getTodoWithCategories_returns [of "todos_id newTodo" u d2]
        by (simp add: post successResponse_def split: sum.splits option.splits)
    qed
  qed
qed

lemma POST_created:
  assumes "createTodoSchema lib json = Inr v"
    and "ci_dueDate v = None"
    and "u \<in> set (map users_id (users d))"
    and "env_randomUuid env \<notin> set (map todos_id (todos d))"
    and "case ci_categoryIds v of None \<Rightarrow> True
         | Some cs \<Rightarrow> set cs \<subseteq> set (map categories_id
             (filter (\<lambda>c. categories_user_id c = u) (categories d)))"
  shows "\<exists>d2. POST lib env (Some u) (Parsed json) d =
           (successResponse
              (TodoBody (withDefaults (createData u v) None (env_randomUuid env) (env_later env))
                 (Some (joinCategories (env_randomUuid env) d2))) 201, d2) \<and>
           todos d2 = todos d @
             [withDefaults (createData u v) None (env_randomUuid env) (env_later env)]"
proof -
  let ?g = "env_randomUuid env"
  let ?row = "withDefaults (createData u v) None ?g (env_later env)"
  let ?d1 = "d\<lparr>todos := todos d @ [?row]\<rparr>"
  have row: "todos_id ?row = ?g" "todos_user_id ?row = u"
    by (simp_all add: withDefaults_def createData_def)
  have cr: "createTodo (createData u v) ?g (env_later env) d = (Inr ?row, ?d1)"
    using assms(2,3,4) by (intro createTodo_inserts) (simp_all add: createData_def)
  have found: "getTodoById ?g u ?d1 = Inr (Some ?row)"
    using assms(4) row by (rule getTodoById_inserted)
  have "\<exists>d2. (case ci_categoryIds v of None \<Rightarrow> (Inr (), ?d1)
        | Some categoryIds \<Rightarrow>
            if length categoryIds > 0
            then replaceTodoCategories (todos_id ?row) categoryIds u (env_later env) ?d1
            else (Inr (), ?d1)) = (Inr (), d2) \<and>
        todos d2 = todos ?d1 \<and> getTodoById ?g u d2 = Inr (Some ?row)"
  proof (cases "ci_categoryIds v")
    case None
    then show ?thesis using found by simp
  next
    case (Some cs)
    then have "set cs \<subseteq> set (map categories_id
        (filter (\<lambda>c. categories_user_id c = u) (categories ?d1)))"
      using assms(5) by simp
    from replaceTodoCategories_owned [OF found this, of "env_later env"] Some found
    show ?thesis by (simp add: row)
  qed
  then obtain d2 where rp: "(case ci_categoryIds v of None \<Rightarrow> (Inr (), ?d1)
        | Some categoryIds \<Rightarrow>
            if length categoryIds > 0
            then replaceTodoCategories (todos_id ?row) categoryIds u (env_later env) ?d1
            else (Inr (), ?d1)) = (Inr (), d2)"
    and d2: "todos d2 = todos ?d1" "getTodoById ?g u d2 = Inr (Some ?row)"
    by blast
  have "POST lib env (Some u) (Parsed json) d =
      (successResponse (TodoBody ?row (Some (joinCategories ?g d2))) 201, d2)"
    unfolding POST_def
    by (simp add: getUserId_def requestJson_def assms(1,2) cr row rp
        getTodoWithCategories_found [OF d2(2)])
  then show ?thesis using d2(1) by simp
qed

text \<open>
  C5. For a body that passes the creation schema, \<^verbatim>\<open>POST\<close> answers 400 exactly when
  a due date is supplied whose time is strictly before the handler's clock; it then
  answers "Due date cannot be in the past" and leaves the store as it was. With no due
  date, a user that exists, a fresh id and category ids (if any) that the user owns, the
  answer is 201 with the new row, which is appended to the todos, whatever the clock
  reads.
\<close>

theorem POST_due_date:
  assumes "createTodoSchema lib json = Inr v"
  shows "(status (fst (POST lib env (Some u) (Parsed json) d)) = 400 \<longleftrightarrow>
            (\<exists>s dueDate. ci_dueDate v = Some s \<and> s \<noteq> [] \<and> datetime lib s = Some dueDate \<and>
               dueDate < env_now env)) \<and>
         ((\<exists>s dueDate. ci_dueDate v = Some s \<and> s \<noteq> [] \<and> datetime lib s = Some dueDate \<and>
               dueDate < env_now env) \<longrightarrow>
            POST lib env (Some u) (Parsed json) d =
              (errorResponse ''Due date cannot be in the past'' 400 None, d)) \<and>
         (ci_dueDate v = None \<and> u \<in> set (map users_id (users d)) \<and>
          env_randomUuid env \<notin> set (map todos_id (todos d)) \<and>
          (case ci_categoryIds v of None \<Rightarrow> True
           | Some cs \<Rightarrow> set cs \<subseteq> set (map categories_id
               (filter (\<lambda>c. categories_user_id c = u) (categories d)))) \<longrightarrow>
            status (fst (POST lib env (Some u) (Parsed json) d)) = 201 \<and>
            (\<exists>cs. body (fst (POST lib env (Some u) (Parsed json) d)) =
               TodoBody (withDefaults (createData u v) None (env_randomUuid env) (env_later env))
                 (Some cs)) \<and>
            todos (snd (POST lib env (Some u) (Parsed json) d)) = todos d @
              [withDefaults (createData u v) None (env_randomUuid env) (env_later env)])"
proof -
  let ?past = "truthy (ci_dueDate v) \<and> before lib (the (ci_dueDate v)) (env_now env)"
  have rejected: "?past \<Longrightarrow> POST lib env (Some u) (Parsed json) d =
      (errorResponse ''Due date cannot be in the past'' 400 None, d)"
    by (simp add: POST_def getUserId_def requestJson_def assms)
  have other: "\<not> ?past \<Longrightarrow> status (fst (POST lib env (Some u) (Parsed json) d)) \<noteq> 400"
    using POST_status [OF assms, of env u d] by auto
  have iff: "status (fst (POST lib env (Some u) (Parsed json) d)) = 400 \<longleftrightarrow> ?past"
    using rejected other by (auto simp: errorResponse_def)
  have created: "ci_dueDate v = None \<and> u \<in> set (map users_id (users d)) \<and>
      env_randomUuid env \<notin> set (map todos_id (todos d)) \<and>
      (case ci_categoryIds v of None \<Rightarrow> True
       | Some cs \<Rightarrow> set cs \<subseteq> set (map categories_id
           (filter (\<lambda>c. categories_user_id c = u) (categories d)))) \<longrightarrow>
      status (fst (POST lib env (Some u) (Parsed json) d)) = 201 \<and>
      (\<exists>cs. body (fst (POST lib env (Some u) (Parsed json) d)) =
         TodoBody (withDefaults (createData u v) None (env_randomUuid env) (env_later env))
           (Some cs)) \<and>
      todos (snd (POST lib env (Some u) (Parsed json) d)) = todos d @
        [withDefaults (createData u v) None (env_randomUuid env) (env_later env)]"
  proof (intro impI, elim conjE)
    assume a: "ci_dueDate v = None" "u \<in> set (map users_id (users d))"
      "env_randomUuid env \<notin> set (map todos_id (todos d))"
      "case ci_categoryIds v of None \<Rightarrow> True
       | Some cs \<Rightarrow> set cs \<subseteq> set (map categories_id
           (filter (\<lambda>c. categories_user_id c = u) (categories d)))"
    from POST_created [OF assms a] obtain d2 where
      "POST lib env (Some u) (Parsed json) d =
         (successResponse
            (TodoBody (withDefaults (createData u v) None (env_randomUuid env) (env_later env))
               (Some (joinCategories (env_randomUuid env) d2))) 201, d2)"
      "todos d2 = todos d @
         [withDefaults (createData u v) None (env_randomUuid env) (env_later env)]"
      by blast
    then show "status (fst (POST lib env (Some u) (Parsed json) d)) = 201 \<and>
      (\<exists>cs. body (fst (POST lib env (Some u) (Parsed json) d)) =
         TodoBody (withDefaults (createData u v) None (env_randomUuid env) (env_later env))
           (Some cs)) \<and>
      todos (snd (POST lib env (Some u) (Parsed json) d)) = todos d @
        [withDefaults (createData u v) None (env_randomUuid env) (env_later env)]"
      by (simp add: successResponse_def)
  qed
  show ?thesis
    using iff rejected created unfolding past_due_date by blast
qed

theorem POST_due_date_witness:
  "createTodoSchema example_lib
     (JObject [(''title'', JString ''Buy eggs''), (''dueDate'', JString ''1970-01-01T00:00:01Z'')]) =
     Inr \<lparr> ci_title = ''Buy eggs'', ci_description = None, ci_priority = None,
           ci_dueDate = Some ''1970-01-01T00:00:01Z'', ci_categoryIds = None \<rparr> \<and>
   datetime example_lib ''1970-01-01T00:00:01Z'' = Some 1000 \<and> 1000 < env_now example_env \<and>
   POST example_lib example_env (Some alice)
     (Parsed (JObject [(''title'', JString ''Buy eggs''),
                       (''dueDate'', JString ''1970-01-01T00:00:01Z'')])) example_db =
     (errorResponse ''Due date cannot be in the past'' 400 None, example_db) \<and>
   createTodoSchema example_lib (JObject [(''title'', JString ''Buy eggs'')]) =
     Inr \<lparr> ci_title = ''Buy eggs'', ci_description = None, ci_priority = None,
           ci_dueDate = None, ci_categoryIds = None \<rparr> \<and>
   alice \<in> set (map users_id (users example_db)) \<and>
   env_randomUuid example_env \<notin> set (map todos_id (todos example_db)) \<and>
   status (fst (POST example_lib example_env (Some alice)
     (Parsed (JObject [(''title'', JString ''Buy eggs'')])) example_db)) = 201 \<and>
   todos (snd (POST example_lib example_env (Some alice)
     (Parsed (JObject [(''title'', JString ''Buy eggs'')])) example_db)) =
     [milk, taxes,
      \<lparr> todos_id = ''t-new'', todos_user_id = alice, todos_title = ''Buy eggs'',
        todos_description = None, todos_is_completed = False, todos_priority = 2,
        todos_due_date = None, todos_created_at = 2001, todos_updated_at = 2001 \<rparr>]"
proof -
  let ?past = "\<lparr> ci_title = ''Buy eggs'', ci_description = None, ci_priority = None,
      ci_dueDate = Some ''1970-01-01T00:00:01Z'', ci_categoryIds = None \<rparr>"
  let ?none = "\<lparr> ci_title = ''Buy eggs'', ci_description = None, ci_priority = None,
      ci_dueDate = None, ci_categoryIds = None \<rparr>"
  have v1: "createTodoSchema example_lib
      (JObject [(''title'', JString ''Buy eggs''),
                (''dueDate'', JString ''1970-01-01T00:00:01Z'')]) = Inr ?past"
    by (simp add: createTodoSchema_def zString_def titleChecks_def datetimeChecks_def
        optional_def example_lib_def)
  have v2: "createTodoSchema example_lib (JObject [(''title'', JString ''Buy eggs'')]) = Inr ?none"
    by (simp add: createTodoSchema_def zString_def titleChecks_def)
  have h: "datetime example_lib ''1970-01-01T00:00:01Z'' = Some 1000"
    "1000 < env_now example_env" "alice \<in> set (map users_id (users example_db))"
    "env_randomUuid example_env \<notin> set (map todos_id (todos example_db))"
    by (simp_all add: example_lib_def example_env_def example_defs)
  have row: "withDefaults (createData alice ?none) None (env_randomUuid example_env)
        (env_later example_env) =
      \<lparr> todos_id = ''t-new'', todos_user_id = alice, todos_title = ''Buy eggs'',
        todos_description = None, todos_is_completed = False, todos_priority = 2,
        todos_due_date = None, todos_created_at = 2001, todos_updated_at = 2001 \<rparr>"
    by (simp add: withDefaults_def createData_def example_env_def)
  have old: "todos example_db = [milk, taxes]"
    by (simp add: example_db_def)
  show ?thesis
    using v1 v2 h
      POST_due_date [OF v1, where env = example_env and u = alice and d = example_db]
      POST_due_date [OF v2, where env = example_env and u = alice and d = example_db]
    unfolding row old by simp
qed

section \<open>Updating a todo: the due date\<close>

lemma updateTodo_string_due_date:
  "up_due_date data = Some (Some (DateString s)) \<Longrightarrow>
     updateTodo i u data now d = (Inl (Error ''Failed to update todo''), d)"
  by (simp add: updateTodo_def)

text \<open>
  C3, as stated, fails: on an incomplete todo whose due date is in the future, a
  \<^verbatim>\<open>PATCH\<close> that sets \<^verbatim>\<open>isCompleted\<close> to true together with a past due date is
  rejected with 400 and nothing is updated. The check reads the completion flag of the
  stored todo, not the one in the body.
\<close>

theorem PATCH_complete_with_past_due_date:
  "getTodoById ''t-milk'' alice example_db = Inr (Some milk) \<and>
   \<not> todos_is_completed milk \<and> todos_due_date milk = Some 5000 \<and>
   env_now example_env = 2000 \<and>
   datetime example_lib ''1970-01-01T00:00:01Z'' = Some 1000 \<and>
   updateTodoSchema example_lib
     (JObject [(''isCompleted'', JBool True), (''dueDate'', JString ''1970-01-01T00:00:01Z'')]) =
     Inr \<lparr> ui_title = None, ui_description = None, ui_priority = None,
           ui_dueDate = Defined ''1970-01-01T00:00:01Z'', ui_isCompleted = Some True,
           ui_categoryIds = None \<rparr> \<and>
   PATCH example_lib example_env (Some alice) ''t-milk''
     (Parsed (JObject [(''isCompleted'', JBool True),
                       (''dueDate'', JString ''1970-01-01T00:00:01Z'')])) example_db =
     (\<lparr> status = 400,
        body = ErrorBody \<lparr> error = ''Due date cannot be in the past'', code = 400,
                            validation = None \<rparr> \<rparr>,
      example_db)"
  by (simp add: PATCH_def getUserId_def requestJson_def getTodoById_def updateTodoSchema_def
      optional_def optionalNullable_def zString_def zBoolean_def datetimeChecks_def
      objectKeys_def before_def errorResponse_def example_lib_def example_env_def example_defs)

text \<open>
  C3, amended. Whether a \<^verbatim>\<open>PATCH\<close> with a due date strictly in the past is rejected
  is decided by the completion flag the todo has in the store, whatever \<^verbatim>\<open>isCompleted\<close>
  the body carries. For an owned todo and a body that passes the schema, the answer is 400
  exactly when the stored todo is incomplete; it is then "Due date cannot be in the past"
  and the store is left as it was. On a todo that is already completed the rejection does
  not fire.
\<close>

theorem PATCH_past_due_date:
  assumes "getTodoById todoId u d = Inr (Some existingTodo)"
    and "updateTodoSchema lib json = Inr v"
    and "ui_dueDate v = Defined s"
    and "datetime lib s = Some dueDate"
    and "dueDate < env_now env"
  shows "(status (fst (PATCH lib env (Some u) todoId (Parsed json) d)) = 400 \<longleftrightarrow>
            \<not> todos_is_completed existingTodo) \<and>
         (\<not> todos_is_completed existingTodo \<longrightarrow>
            PATCH lib env (Some u) todoId (Parsed json) d =
              (errorResponse ''Due date cannot be in the past'' 400 None, d))"
proof -
  have past: "before lib s (env_now env)"
    using assms(4,5) by (simp add: before_def)
  have rejected: "PATCH lib env (Some u) todoId (Parsed json) d =
      (errorResponse ''Due date cannot be in the past'' 400 None, d)"
    if "\<not> todos_is_completed existingTodo"
    using that past by (simp add: PATCH_def getUserId_def requestJson_def assms(1,2,3))
  have passed: "status (fst (PATCH lib env (Some u) todoId (Parsed json) d)) \<noteq> 400"
    if "todos_is_completed existingTodo"
  proof -
    have "up_due_date (updateData v) = Some (Some (DateString s))"
      by (simp add: updateData_def assms(3))
    then have "updateTodo todoId u (updateData v) (env_later env) d =
        (Inl (Error ''Failed to update todo''), d)"
      by (rule updateTodo_string_due_date)
    moreover have "handleError (Error ''Failed to update todo'') =
        errorResponse ''Failed to update todo'' 500 None"
      by (rule handleError_query_layer) (simp add: queryLayerMessages_def)
    ultimately show ?thesis
      using that
      by (simp add: PATCH_def getUserId_def requestJson_def assms(1,2,3) errorResponse_def)
  qed
  show ?thesis
    using rejected passed by (auto simp: errorResponse_def)
qed

theorem PATCH_past_due_date_witness:
  "getTodoById ''t-milk'' alice example_db = Inr (Some milk) \<and>
   updateTodoSchema example_lib
     (JObject [(''isCompleted'', JBool True), (''dueDate'', JString ''1970-01-01T00:00:01Z'')]) =
     Inr \<lparr> ui_title = None, ui_description = None, ui_priority = None,
           ui_dueDate = Defined ''1970-01-01T00:00:01Z'', ui_isCompleted = Some True,
           ui_categoryIds = None \<rparr> \<and>
   datetime example_lib ''1970-01-01T00:00:01Z'' = Some 1000 \<and> 1000 < env_now example_env \<and>
   \<not> todos_is_completed milk \<and>
   PATCH example_lib example_env (Some alice) ''t-milk''
     (Parsed (JObject [(''isCompleted'', JBool True),
                       (''dueDate'', JString ''1970-01-01T00:00:01Z'')])) example_db =
     (errorResponse ''Due date cannot be in the past'' 400 None, example_db) \<and>
   getTodoById ''t-taxes'' bob example_db = Inr (Some taxes) \<and>
   todos_is_completed taxes \<and>
   status (fst (PATCH example_lib example_env (Some bob) ''t-taxes''
     (Parsed (JObject [(''isCompleted'', JBool True),
                       (''dueDate'', JString ''1970-01-01T00:00:01Z'')])) example_db)) \<noteq> 400"
proof -
  let ?v = "\<lparr> ui_title = None, ui_description = None, ui_priority = None,
      ui_dueDate = Defined ''1970-01-01T00:00:01Z'', ui_isCompleted = Some True,
      ui_categoryIds = None \<rparr>"
  have own: "getTodoById ''t-milk'' alice example_db = Inr (Some milk)"
    "getTodoById ''t-taxes'' bob example_db = Inr (Some taxes)"
    by (simp_all add: getTodoById_def example_defs)
  have v: "updateTodoSchema example_lib
      (JObject [(''isCompleted'', JBool True),
                (''dueDate'', JString ''1970-01-01T00:00:01Z'')]) = Inr ?v"
    by (simp add: updateTodoSchema_def optional_def optionalNullable_def zString_def
        zBoolean_def datetimeChecks_def objectKeys_def example_lib_def)
  have due: "ui_dueDate ?v = Defined ''1970-01-01T00:00:01Z''"
    by simp
  have h: "datetime example_lib ''1970-01-01T00:00:01Z'' = Some 1000"
    "1000 < env_now example_env"
    by (simp_all add: example_lib_def example_env_def)
  have state: "\<not> todos_is_completed milk" "todos_is_completed taxes"
    by (simp_all add: example_defs)
  show ?thesis
    using own v h state
      PATCH_past_due_date [OF own(1) v due h]
      PATCH_past_due_date [OF own(2) v due h]
    by simp
qed

end

